theory Spec2Isabelle
  imports Complex_Main
begin

section \<open>Calculadora de precificacao (app.py)\<close>

text \<open>
  A shallow embedding of the validation and pricing code of \<^verbatim>\<open>app.py\<close>.

  Integers. A Python \<^verbatim>\<open>int\<close> is an \<^typ>\<open>int\<close>.

  Floats. A Python \<^verbatim>\<open>float\<close> is an IEEE 754 binary64 number: a finite value, one of
  the two infinities, or a NaN. Every arithmetic operation rounds the exact result to
  the nearest binary64 number, ties to the even significand, and overflows to an
  infinity. The two zeros compare equal in Python and are one value here.

  Strings. A Python string is a \<^typ>\<open>string\<close> with one \<^typ>\<open>char\<close> per code point; the
  accented letters of the messages are all below 256 and are written \<open>CHR 0x..\<close>.

  Parsing. The builtins \<^verbatim>\<open>float(s)\<close> and \<^verbatim>\<open>int(s)\<close> on a string are parameters
  \<open>pfloat\<close> and \<open>pint\<close> of the model; \<open>None\<close> is the \<^verbatim>\<open>ValueError\<close> they raise.
\<close>

subsection \<open>Binary64 arithmetic\<close>

datatype pyfloat = Num real | PInf | NInf | NaN

text \<open>Rounding a real to the nearest integer, a tie going to the even one.\<close>

definition meio_par :: "real \<Rightarrow> int" where
  "meio_par y =
     (let f = \<lfloor>y\<rfloor>; r = y - of_int f
      in if r < 1 / 2 then f else if 1 / 2 < r then f + 1 else if even f then f else f + 1)"

text \<open>
  The exponent of the unit in the last place at \<open>x\<close>: 52 below the binary exponent of
  \<open>x\<close>, and \<open>-1074\<close> throughout the subnormal range.
\<close>

definition quantum :: "real \<Rightarrow> int" where
  "quantum x = max \<lfloor>log 2 \<bar>x\<bar>\<rfloor> (- 1022) - 52"

text \<open>The nearest multiple of the unit in the last place, before the overflow test.\<close>

definition valor_arredondado :: "real \<Rightarrow> real" where
  "valor_arredondado x =
     (if x = 0 then 0 else of_int (meio_par (x / 2 powi quantum x)) * 2 powi quantum x)"

text \<open>Round to nearest, ties to even; a magnitude of \<open>2 ^ 1024\<close> or more is an infinity.\<close>

definition arredondar :: "real \<Rightarrow> pyfloat" where
  "arredondar x =
     (let v = valor_arredondado x
      in if 2 ^ 1024 \<le> v then PInf else if v \<le> - (2 ^ 1024) then NInf else Num v)"

text \<open>Python's \<^verbatim>\<open><\<close> and \<^verbatim>\<open><=\<close> on floats: every comparison with a NaN is false.\<close>

fun flt :: "pyfloat \<Rightarrow> pyfloat \<Rightarrow> bool" where
  "flt (Num a) (Num b) = (a < b)"
| "flt (Num a) PInf = True"
| "flt NInf (Num b) = True"
| "flt NInf PInf = True"
| "flt _ _ = False"

fun fle :: "pyfloat \<Rightarrow> pyfloat \<Rightarrow> bool" where
  "fle (Num a) (Num b) = (a \<le> b)"
| "fle (Num a) PInf = True"
| "fle NInf (Num b) = True"
| "fle NInf PInf = True"
| "fle NInf NInf = True"
| "fle PInf PInf = True"
| "fle _ _ = False"

text \<open>Float addition and multiplication.\<close>

fun fadd :: "pyfloat \<Rightarrow> pyfloat \<Rightarrow> pyfloat" where
  "fadd (Num a) (Num b) = arredondar (a + b)"
| "fadd NaN _ = NaN"
| "fadd _ NaN = NaN"
| "fadd PInf NInf = NaN"
| "fadd NInf PInf = NaN"
| "fadd PInf _ = PInf"
| "fadd _ PInf = PInf"
| "fadd NInf _ = NInf"
| "fadd _ NInf = NInf"

fun fmul :: "pyfloat \<Rightarrow> pyfloat \<Rightarrow> pyfloat" where
  "fmul (Num a) (Num b) = arredondar (a * b)"
| "fmul NaN _ = NaN"
| "fmul _ NaN = NaN"
| "fmul (Num a) PInf = (if a = 0 then NaN else if 0 < a then PInf else NInf)"
| "fmul (Num a) NInf = (if a = 0 then NaN else if 0 < a then NInf else PInf)"
| "fmul PInf (Num b) = (if b = 0 then NaN else if 0 < b then PInf else NInf)"
| "fmul NInf (Num b) = (if b = 0 then NaN else if 0 < b then NInf else PInf)"
| "fmul PInf PInf = PInf"
| "fmul PInf NInf = NInf"
| "fmul NInf PInf = NInf"
| "fmul NInf NInf = PInf"

text \<open>
  The exception of the arithmetic: converting an \<^verbatim>\<open>int\<close> to \<^verbatim>\<open>float\<close> rounds it, and
  raises \<^verbatim>\<open>OverflowError\<close> where the rounded value is not finite.
\<close>

datatype overflow = OverflowError

definition float_de_int :: "int \<Rightarrow> overflow + pyfloat" where
  "float_de_int n =
     (case arredondar (of_int n) of
        Num v \<Rightarrow> Inr (Num v)
      | PInf \<Rightarrow> Inl OverflowError
      | NInf \<Rightarrow> Inl OverflowError
      | NaN \<Rightarrow> Inl OverflowError)"

text \<open>Sequencing: the first exception raised ends the evaluation.\<close>

fun seguir :: "'e + 'a \<Rightarrow> ('a \<Rightarrow> 'e + 'b) \<Rightarrow> 'e + 'b" where
  "seguir (Inl e) f = Inl e"
| "seguir (Inr x) f = f x"

text \<open>\<^verbatim>\<open>n * x\<close> and \<^verbatim>\<open>n + x\<close> for an \<^verbatim>\<open>int\<close> and a \<^verbatim>\<open>float\<close>: the integer is converted first.\<close>

definition int_vezes_float :: "int \<Rightarrow> pyfloat \<Rightarrow> overflow + pyfloat" where
  "int_vezes_float n x = seguir (float_de_int n) (\<lambda>a. Inr (fmul a x))"

definition int_mais_float :: "int \<Rightarrow> pyfloat \<Rightarrow> overflow + pyfloat" where
  "int_mais_float n x = seguir (float_de_int n) (\<lambda>a. Inr (fadd a x))"

subsection \<open>Data model\<close>

record DadosEntrada =
  F_base :: pyfloat
  N_emp :: int
  Rp1 :: pyfloat
  Rp2 :: pyfloat
  N_loc :: int
  R_loc :: pyfloat
  Aud_incl :: int
  N_aud :: int
  R_aud :: pyfloat
  m :: pyfloat

record ResultadoCalculo =
  C_emp :: pyfloat
  C_loc :: pyfloat
  C_aud :: pyfloat
  Custo_bruto :: pyfloat
  Preco :: pyfloat

text \<open>The submitted form: field name to raw text (\<^verbatim>\<open>request.form\<close>).\<close>

type_synonym form = "string \<rightharpoonup> string"

text \<open>The exceptions of reading a form.\<close>

datatype py_error = ValueError | KeyError

subsection \<open>Messages\<close>

definition msg_F_base :: string where
  "msg_F_base = ''O valor base deve ser positivo''"

definition msg_N_emp :: string where
  "msg_N_emp = ''O n'' @ [CHR 0xFA] @ ''mero de funcion'' @ [CHR 0xE1] @ ''rios deve ser positivo''"

definition msg_Rp :: string where
  "msg_Rp = ''As tarifas de funcion'' @ [CHR 0xE1] @ ''rios devem ser positivas''"

definition msg_N_loc :: string where
  "msg_N_loc = ''O n'' @ [CHR 0xFA] @ ''mero de postos deve ser positivo''"

definition msg_R_loc :: string where
  "msg_R_loc = ''A tarifa por posto deve ser positiva''"

definition msg_audiencias :: string where
  "msg_audiencias = ''O n'' @ [CHR 0xFA] @ ''mero de audi'' @ [CHR 0xEA] @ ''ncias deve ser positivo''"

definition msg_total_incluidas :: string where
  "msg_total_incluidas =
     ''O n'' @ [CHR 0xFA] @ ''mero total de audi'' @ [CHR 0xEA] @ ''ncias deve ser maior ou igual ''
     @ [CHR 0xE0] @ ''s audi'' @ [CHR 0xEA] @ ''ncias inclu'' @ [CHR 0xED] @ ''das''"

definition msg_R_aud :: string where
  "msg_R_aud = ''A tarifa por audi'' @ [CHR 0xEA] @ ''ncia extra deve ser positiva''"

definition msg_m_negativa :: string where
  "msg_m_negativa = ''A margem de lucro deve ser positiva (ex: 0.20 para 20%)''"

definition msg_m_alta :: string where
  "msg_m_alta =
     ''A margem de lucro parece muito alta. Use valores decimais (ex: 0.20 para 20%)''"

definition msg_erro_dados :: string where
  "msg_erro_dados =
     ''Erro nos dados informados. Verifique se todos os campos est'' @ [CHR 0xE3]
     @ ''o preenchidos corretamente''"

definition msg_sucesso :: string where
  "msg_sucesso = ''C'' @ [CHR 0xE1] @ ''lculo realizado com sucesso!''"

definition msg_erro_processar :: string where
  "msg_erro_processar = ''Erro ao processar os dados. Verifique os valores informados.''"

text \<open>
  The flash of the \<^verbatim>\<open>except Exception\<close> branch of \<^verbatim>\<open>index\<close>: the prefix followed
  by \<^verbatim>\<open>str(e)\<close>, which for the overflow of an integer conversion is the text below.
\<close>

definition texto_overflow :: "overflow \<Rightarrow> string" where
  "texto_overflow e = (case e of OverflowError \<Rightarrow> ''int too large to convert to float'')"

definition msg_erro_inesperado :: "overflow \<Rightarrow> string" where
  "msg_erro_inesperado e =
     ''Erro inesperado no c'' @ [CHR 0xE1] @ ''lculo: '' @ texto_overflow e"

subsection \<open>Input Validator: \<^verbatim>\<open>validar_dados_entrada\<close>\<close>

text \<open>
  \<^verbatim>\<open>float(form_data.get(k, 0))\<close> and \<^verbatim>\<open>int(form_data.get(k, 0))\<close>: a missing field
  is the integer 0, which converts to 0; a present one is parsed.
\<close>

definition float_get :: "(string \<Rightarrow> pyfloat option) \<Rightarrow> form \<Rightarrow> string \<Rightarrow> pyfloat option" where
  "float_get pfloat form_data k =
     (case form_data k of None \<Rightarrow> Some (Num 0) | Some s \<Rightarrow> pfloat s)"

definition int_get :: "(string \<Rightarrow> int option) \<Rightarrow> form \<Rightarrow> string \<Rightarrow> int option" where
  "int_get pint form_data k = (case form_data k of None \<Rightarrow> Some 0 | Some s \<Rightarrow> pint s)"

text \<open>
  The ten conversions that open the \<^verbatim>\<open>try\<close> block (lines 35 to 44), in the source's
  order; \<open>None\<close> when one of them raises \<^verbatim>\<open>ValueError\<close>. The ten local variables are
  collected in a \<^typ>\<open>DadosEntrada\<close>.
\<close>

definition ler_campos ::
  "(string \<Rightarrow> pyfloat option) \<Rightarrow> (string \<Rightarrow> int option) \<Rightarrow> form \<Rightarrow> DadosEntrada option" where
  "ler_campos pfloat pint form_data =
     Option.bind (float_get pfloat form_data ''F_base'') (\<lambda>v_F_base.
     Option.bind (int_get pint form_data ''N_emp'') (\<lambda>v_N_emp.
     Option.bind (float_get pfloat form_data ''Rp1'') (\<lambda>v_Rp1.
     Option.bind (float_get pfloat form_data ''Rp2'') (\<lambda>v_Rp2.
     Option.bind (int_get pint form_data ''N_loc'') (\<lambda>v_N_loc.
     Option.bind (float_get pfloat form_data ''R_loc'') (\<lambda>v_R_loc.
     Option.bind (int_get pint form_data ''Aud_incl'') (\<lambda>v_Aud_incl.
     Option.bind (int_get pint form_data ''N_aud'') (\<lambda>v_N_aud.
     Option.bind (float_get pfloat form_data ''R_aud'') (\<lambda>v_R_aud.
     Option.bind (float_get pfloat form_data ''m'') (\<lambda>v_m.
     Some \<lparr>F_base = v_F_base, N_emp = v_N_emp, Rp1 = v_Rp1, Rp2 = v_Rp2, N_loc = v_N_loc,
           R_loc = v_R_loc, Aud_incl = v_Aud_incl, N_aud = v_N_aud, R_aud = v_R_aud,
           m = v_m\<rparr>))))))))))"

text \<open>
  The business checks (lines 47 to 77), in the source's order. A float is compared with
  the integers 0 and 10 by value.
\<close>

definition regras_negocio :: "DadosEntrada \<Rightarrow> bool \<times> string" where
  "regras_negocio d =
     (if flt (F_base d) (Num 0) then (False, msg_F_base)
      else if N_emp d < 0 then (False, msg_N_emp)
      else if flt (Rp1 d) (Num 0) \<or> flt (Rp2 d) (Num 0) then (False, msg_Rp)
      else if N_loc d < 0 then (False, msg_N_loc)
      else if flt (R_loc d) (Num 0) then (False, msg_R_loc)
      else if Aud_incl d < 0 \<or> N_aud d < 0 then (False, msg_audiencias)
      else if N_aud d < Aud_incl d then (False, msg_total_incluidas)
      else if flt (R_aud d) (Num 0) then (False, msg_R_aud)
      else if flt (m d) (Num 0) then (False, msg_m_negativa)
      else if flt (Num 10) (m d) then (False, msg_m_alta)
      else (True, []))"

text \<open>
  The function itself: the \<^verbatim>\<open>except ValueError\<close> branch answers a failed conversion.
  The \<^verbatim>\<open>except Exception\<close> branch is not reached: on strings the conversions raise
  nothing but \<^verbatim>\<open>ValueError\<close>, and the comparisons raise nothing.
\<close>

definition validar_dados_entrada ::
  "(string \<Rightarrow> pyfloat option) \<Rightarrow> (string \<Rightarrow> int option) \<Rightarrow> form \<Rightarrow> bool \<times> string" where
  "validar_dados_entrada pfloat pint form_data =
     (case ler_campos pfloat pint form_data of
        None \<Rightarrow> (False, msg_erro_dados)
      | Some d \<Rightarrow> regras_negocio d)"

subsection \<open>\<^verbatim>\<open>processar_dados_formulario\<close>\<close>

text \<open>
  \<^verbatim>\<open>float(form_data[k])\<close> and \<^verbatim>\<open>int(form_data[k])\<close>: a missing field raises
  \<^verbatim>\<open>KeyError\<close>, a present one is parsed.
\<close>

definition float_item ::
  "(string \<Rightarrow> pyfloat option) \<Rightarrow> form \<Rightarrow> string \<Rightarrow> py_error + pyfloat" where
  "float_item pfloat form_data k =
     (case form_data k of
        None \<Rightarrow> Inl KeyError
      | Some s \<Rightarrow> (case pfloat s of None \<Rightarrow> Inl ValueError | Some x \<Rightarrow> Inr x))"

definition int_item :: "(string \<Rightarrow> int option) \<Rightarrow> form \<Rightarrow> string \<Rightarrow> py_error + int" where
  "int_item pint form_data k =
     (case form_data k of
        None \<Rightarrow> Inl KeyError
      | Some s \<Rightarrow> (case pint s of None \<Rightarrow> Inl ValueError | Some x \<Rightarrow> Inr x))"

definition construir_dados ::
  "(string \<Rightarrow> pyfloat option) \<Rightarrow> (string \<Rightarrow> int option) \<Rightarrow> form \<Rightarrow> py_error + DadosEntrada" where
  "construir_dados pfloat pint form_data =
     seguir (float_item pfloat form_data ''F_base'') (\<lambda>v_F_base.
     seguir (int_item pint form_data ''N_emp'') (\<lambda>v_N_emp.
     seguir (float_item pfloat form_data ''Rp1'') (\<lambda>v_Rp1.
     seguir (float_item pfloat form_data ''Rp2'') (\<lambda>v_Rp2.
     seguir (int_item pint form_data ''N_loc'') (\<lambda>v_N_loc.
     seguir (float_item pfloat form_data ''R_loc'') (\<lambda>v_R_loc.
     seguir (int_item pint form_data ''Aud_incl'') (\<lambda>v_Aud_incl.
     seguir (int_item pint form_data ''N_aud'') (\<lambda>v_N_aud.
     seguir (float_item pfloat form_data ''R_aud'') (\<lambda>v_R_aud.
     seguir (float_item pfloat form_data ''m'') (\<lambda>v_m.
     Inr \<lparr>F_base = v_F_base, N_emp = v_N_emp, Rp1 = v_Rp1, Rp2 = v_Rp2, N_loc = v_N_loc,
          R_loc = v_R_loc, Aud_incl = v_Aud_incl, N_aud = v_N_aud, R_aud = v_R_aud,
          m = v_m\<rparr>))))))))))"

text \<open>\<^verbatim>\<open>except (ValueError, KeyError): return None\<close>: both exceptions are caught.\<close>

definition processar_dados_formulario ::
  "(string \<Rightarrow> pyfloat option) \<Rightarrow> (string \<Rightarrow> int option) \<Rightarrow> form \<Rightarrow> DadosEntrada option" where
  "processar_dados_formulario pfloat pint form_data =
     (case construir_dados pfloat pint form_data of
        Inl ValueError \<Rightarrow> None
      | Inl KeyError \<Rightarrow> None
      | Inr dados \<Rightarrow> Some dados)"

subsection \<open>Pricing Calculator\<close>

text \<open>
  \<^verbatim>\<open>min(n_emp, 100) * rp1 + max(0, n_emp - 100) * rp2\<close>: two products of an integer and
  a float, then a float sum.
\<close>

definition calcular_custo_funcionarios :: "int \<Rightarrow> pyfloat \<Rightarrow> pyfloat \<Rightarrow> overflow + pyfloat" where
  "calcular_custo_funcionarios n_emp rp1 rp2 =
     seguir (int_vezes_float (min n_emp 100) rp1) (\<lambda>a.
     seguir (int_vezes_float (max 0 (n_emp - 100)) rp2) (\<lambda>b.
     Inr (fadd a b)))"

definition calcular_custo_postos :: "int \<Rightarrow> pyfloat \<Rightarrow> overflow + pyfloat" where
  "calcular_custo_postos n_loc r_loc = int_vezes_float n_loc r_loc"

definition calcular_custo_audiencias_extras :: "int \<Rightarrow> int \<Rightarrow> pyfloat \<Rightarrow> overflow + pyfloat" where
  "calcular_custo_audiencias_extras n_aud aud_incl r_aud =
     int_vezes_float (max 0 (n_aud - aud_incl)) r_aud"

definition calcular_precificacao :: "DadosEntrada \<Rightarrow> overflow + ResultadoCalculo" where
  "calcular_precificacao dados =
     seguir (calcular_custo_funcionarios (N_emp dados) (Rp1 dados) (Rp2 dados)) (\<lambda>v_C_emp.
     seguir (calcular_custo_postos (N_loc dados) (R_loc dados)) (\<lambda>v_C_loc.
     seguir (calcular_custo_audiencias_extras (N_aud dados) (Aud_incl dados) (R_aud dados))
       (\<lambda>v_C_aud.
     let v_Custo_bruto = fadd (fadd (fadd (F_base dados) v_C_emp) v_C_loc) v_C_aud in
     seguir (int_mais_float 1 (m dados)) (\<lambda>um_mais_m.
     Inr \<lparr>C_emp = v_C_emp, C_loc = v_C_loc, C_aud = v_C_aud,
          Custo_bruto = v_Custo_bruto, Preco = fmul v_Custo_bruto um_mais_m\<rparr>))))"

subsection \<open>The request handler: \<^verbatim>\<open>index\<close>\<close>

datatype metodo = GET | POST

text \<open>
  What a request leaves for the template: the flashed messages, each with its category,
  and \<^verbatim>\<open>resultado\<close> (\<open>None\<close>: no result block is rendered).
\<close>

record resposta =
  flashes :: "(string \<times> string) list"
  resultado :: "ResultadoCalculo option"

text \<open>
  An instance of the dataclass is always truthy, so \<^verbatim>\<open>if dados\<close> tests for \<open>None\<close>.
  An exception of \<^verbatim>\<open>calcular_precificacao\<close> is caught by \<^verbatim>\<open>except Exception\<close>: it is
  flashed as an error and \<^verbatim>\<open>resultado\<close> stays \<open>None\<close>.
  \<^verbatim>\<open>processar_dados_formulario\<close> catches its own exceptions.
\<close>

definition index ::
  "(string \<Rightarrow> pyfloat option) \<Rightarrow> (string \<Rightarrow> int option) \<Rightarrow> metodo \<Rightarrow> form \<Rightarrow> resposta" where
  "index pfloat pint method form_data =
     (if method = POST then
        (case validar_dados_entrada pfloat pint form_data of
           (valido, mensagem_erro) \<Rightarrow>
             if \<not> valido then \<lparr>flashes = [(mensagem_erro, ''error'')], resultado = None\<rparr>
             else (case processar_dados_formulario pfloat pint form_data of
                     Some dados \<Rightarrow>
                       (case calcular_precificacao dados of
                          Inr r \<Rightarrow>
                            \<lparr>flashes = [(msg_sucesso, ''success'')], resultado = Some r\<rparr>
                        | Inl e \<Rightarrow>
                            \<lparr>flashes = [(msg_erro_inesperado e, ''error'')],
                             resultado = None\<rparr>)
                   | None \<Rightarrow>
                       \<lparr>flashes = [(msg_erro_processar, ''error'')], resultado = None\<rparr>))
      else \<lparr>flashes = [], resultado = None\<rparr>)"

subsection \<open>Decimal literals\<close>

text \<open>
  The plain literals that \<^verbatim>\<open>int(s)\<close> and \<^verbatim>\<open>float(s)\<close> accept: an optional sign,
  digits, and for \<^verbatim>\<open>float\<close> an optional point with digits on at least one side, rounded
  to the nearest float, or one of \<^verbatim>\<open>inf\<close>, \<^verbatim>\<open>-inf\<close>, \<^verbatim>\<open>nan\<close>. Python accepts more
  (blanks around the number, underscores, exponents, other spellings of the special
  values); these two functions stand for the builtins only where the model is run on a
  concrete form.
\<close>

definition digit_of :: "char \<Rightarrow> nat option" where
  "digit_of =
     map_of [(CHR ''0'', 0), (CHR ''1'', 1), (CHR ''2'', 2), (CHR ''3'', 3), (CHR ''4'', 4),
             (CHR ''5'', 5), (CHR ''6'', 6), (CHR ''7'', 7), (CHR ''8'', 8), (CHR ''9'', 9)]"

fun digits_val :: "string \<Rightarrow> nat \<Rightarrow> nat option" where
  "digits_val [] acc = Some acc"
| "digits_val (c # cs) acc =
     (case digit_of c of None \<Rightarrow> None | Some k \<Rightarrow> digits_val cs (10 * acc + k))"

definition nat_lit :: "string \<Rightarrow> nat option" where
  "nat_lit s = (if s = [] then None else digits_val s 0)"

definition dec_int :: "string \<Rightarrow> int option" where
  "dec_int s =
     (case s of
        [] \<Rightarrow> None
      | c # r \<Rightarrow>
          if c = CHR ''-'' then map_option (\<lambda>n. - int n) (nat_lit r)
          else if c = CHR ''+'' then map_option int (nat_lit r)
          else map_option int (nat_lit s))"

definition dec_unsigned :: "string \<Rightarrow> real option" where
  "dec_unsigned s =
     (let ip = takeWhile (\<lambda>c. c \<noteq> CHR ''.'') s;
          rest = dropWhile (\<lambda>c. c \<noteq> CHR ''.'') s
      in if rest = [] then map_option real (nat_lit ip)
         else let fp = tl rest
              in if ip = [] \<and> fp = [] then None
                 else (case (if ip = [] then Some 0 else nat_lit ip,
                             if fp = [] then Some 0 else nat_lit fp) of
                         (Some i, Some f) \<Rightarrow> Some (real i + real f / 10 ^ length fp)
                       | _ \<Rightarrow> None))"

definition dec_float :: "string \<Rightarrow> pyfloat option" where
  "dec_float s =
     (if s = ''inf'' then Some PInf
      else if s = ''-inf'' then Some NInf
      else if s = ''nan'' then Some NaN
      else (case s of
              [] \<Rightarrow> None
            | c # r \<Rightarrow>
                if c = CHR ''-'' then map_option (\<lambda>v. arredondar (- v)) (dec_unsigned r)
                else if c = CHR ''+'' then map_option arredondar (dec_unsigned r)
                else map_option arredondar (dec_unsigned s)))"

subsection \<open>Vocabulary of the properties\<close>

text \<open>The ten form fields, and the messages of the business checks.\<close>

definition campos :: "string list" where
  "campos = [''F_base'', ''N_emp'', ''Rp1'', ''Rp2'', ''N_loc'', ''R_loc'', ''Aud_incl'',
             ''N_aud'', ''R_aud'', ''m'']"

definition mensagens_regra :: "string list" where
  "mensagens_regra = [msg_F_base, msg_N_emp, msg_Rp, msg_N_loc, msg_R_loc, msg_audiencias,
                      msg_total_incluidas, msg_R_aud, msg_m_negativa, msg_m_alta]"





text \<open>Some field of the record is negative.\<close>

definition algum_negativo :: "DadosEntrada \<Rightarrow> bool" where
  "algum_negativo d \<longleftrightarrow>
     flt (F_base d) (Num 0) \<or> N_emp d < 0 \<or> flt (Rp1 d) (Num 0) \<or> flt (Rp2 d) (Num 0)
     \<or> N_loc d < 0 \<or> flt (R_loc d) (Num 0) \<or> Aud_incl d < 0 \<or> N_aud d < 0
     \<or> flt (R_aud d) (Num 0) \<or> flt (m d) (Num 0)"

text \<open>
  Some field of the form, read as the validator reads it, is a negative number
  (whatever becomes of the other fields).
\<close>

definition campo_negativo ::
  "(string \<Rightarrow> pyfloat option) \<Rightarrow> (string \<Rightarrow> int option) \<Rightarrow> form \<Rightarrow> bool" where
  "campo_negativo pfloat pint form_data \<longleftrightarrow>
     (case float_get pfloat form_data ''F_base'' of Some v \<Rightarrow> flt v (Num 0) | None \<Rightarrow> False)
     \<or> (case int_get pint form_data ''N_emp'' of Some v \<Rightarrow> v < 0 | None \<Rightarrow> False)
     \<or> (case float_get pfloat form_data ''Rp1'' of Some v \<Rightarrow> flt v (Num 0) | None \<Rightarrow> False)
     \<or> (case float_get pfloat form_data ''Rp2'' of Some v \<Rightarrow> flt v (Num 0) | None \<Rightarrow> False)
     \<or> (case int_get pint form_data ''N_loc'' of Some v \<Rightarrow> v < 0 | None \<Rightarrow> False)
     \<or> (case float_get pfloat form_data ''R_loc'' of Some v \<Rightarrow> flt v (Num 0) | None \<Rightarrow> False)
     \<or> (case int_get pint form_data ''Aud_incl'' of Some v \<Rightarrow> v < 0 | None \<Rightarrow> False)
     \<or> (case int_get pint form_data ''N_aud'' of Some v \<Rightarrow> v < 0 | None \<Rightarrow> False)
     \<or> (case float_get pfloat form_data ''R_aud'' of Some v \<Rightarrow> flt v (Num 0) | None \<Rightarrow> False)
     \<or> (case float_get pfloat form_data ''m'' of Some v \<Rightarrow> flt v (Num 0) | None \<Rightarrow> False)"

text \<open>Every field of the record is non-negative (\<^verbatim>\<open>0 <= x\<close>, which no NaN satisfies).\<close>

definition nao_negativos :: "DadosEntrada \<Rightarrow> bool" where
  "nao_negativos d \<longleftrightarrow>
     fle (Num 0) (F_base d) \<and> 0 \<le> N_emp d \<and> fle (Num 0) (Rp1 d) \<and> fle (Num 0) (Rp2 d)
     \<and> 0 \<le> N_loc d \<and> fle (Num 0) (R_loc d) \<and> 0 \<le> Aud_incl d \<and> 0 \<le> N_aud d
     \<and> fle (Num 0) (R_aud d) \<and> fle (Num 0) (m d)"

text \<open>A finite float: a real that rounding leaves as it is.\<close>

definition finito :: "pyfloat \<Rightarrow> bool" where
  "finito x = (case x of Num v \<Rightarrow> arredondar v = Num v | PInf \<Rightarrow> False | NInf \<Rightarrow> False
               | NaN \<Rightarrow> False)"

text \<open>Every float field of the record is finite.\<close>

definition campos_finitos :: "DadosEntrada \<Rightarrow> bool" where
  "campos_finitos d \<longleftrightarrow>
     finito (F_base d) \<and> finito (Rp1 d) \<and> finito (Rp2 d) \<and> finito (R_loc d)
     \<and> finito (R_aud d) \<and> finito (m d)"

text \<open>The integer converts to a float without overflow.\<close>

definition convertivel :: "int \<Rightarrow> bool" where
  "convertivel n = (case float_de_int n of Inr a \<Rightarrow> True | Inl e \<Rightarrow> False)"

subsection \<open>Sample inputs\<close>

text \<open>
  The worked example of the specification, as a record and as a submitted form. The
  margin is the float written \<^verbatim>\<open>0.20\<close>.
\<close>

definition dados_exemplo :: DadosEntrada where
  "dados_exemplo =
     \<lparr>F_base = Num 1000, N_emp = 50, Rp1 = Num 25, Rp2 = Num 30, N_loc = 5, R_loc = Num 200,
      Aud_incl = 3, N_aud = 8, R_aud = Num 150, m = arredondar 0.20\<rparr>"

definition form_exemplo :: form where
  "form_exemplo =
     map_of [(''F_base'', ''1000''), (''N_emp'', ''50''), (''Rp1'', ''25''), (''Rp2'', ''30''),
             (''N_loc'', ''5''), (''R_loc'', ''200''), (''Aud_incl'', ''3''), (''N_aud'', ''8''),
             (''R_aud'', ''150''), (''m'', ''0.20'')]"



text \<open>As the example, with three hearings included and two held.\<close>

definition form_menos_audiencias :: form where
  "form_menos_audiencias =
     map_of [(''F_base'', ''1000''), (''N_emp'', ''50''), (''Rp1'', ''25''), (''Rp2'', ''30''),
             (''N_loc'', ''5''), (''R_loc'', ''200''), (''Aud_incl'', ''3''), (''N_aud'', ''2''),
             (''R_aud'', ''150''), (''m'', ''0.20'')]"

definition dados_menos_audiencias :: DadosEntrada where
  "dados_menos_audiencias =
     \<lparr>F_base = Num 1000, N_emp = 50, Rp1 = Num 25, Rp2 = Num 30, N_loc = 5, R_loc = Num 200,
      Aud_incl = 3, N_aud = 2, R_aud = Num 150, m = arredondar 0.20\<rparr>"

text \<open>As the example, with a negative number of employees.\<close>

definition form_negativo :: form where
  "form_negativo =
     map_of [(''F_base'', ''1000''), (''N_emp'', ''-5''), (''Rp1'', ''25''), (''Rp2'', ''30''),
             (''N_loc'', ''5''), (''R_loc'', ''200''), (''Aud_incl'', ''3''), (''N_aud'', ''8''),
             (''R_aud'', ''150''), (''m'', ''0.20'')]"

definition dados_negativo :: DadosEntrada where
  "dados_negativo =
     \<lparr>F_base = Num 1000, N_emp = - 5, Rp1 = Num 25, Rp2 = Num 30, N_loc = 5, R_loc = Num 200,
      Aud_incl = 3, N_aud = 8, R_aud = Num 150, m = arredondar 0.20\<rparr>"

text \<open>A negative number of employees beside a base fee that is not a number.\<close>

definition form_malformado :: form where
  "form_malformado =
     map_of [(''F_base'', ''abc''), (''N_emp'', ''-5''), (''Rp1'', ''25''), (''Rp2'', ''30''),
             (''N_loc'', ''5''), (''R_loc'', ''200''), (''Aud_incl'', ''3''), (''N_aud'', ''8''),
             (''R_aud'', ''150''), (''m'', ''0.20'')]"

text \<open>As the example, with the field \<^verbatim>\<open>m\<close> not submitted.\<close>

definition form_sem_margem :: form where
  "form_sem_margem =
     map_of [(''F_base'', ''1000''), (''N_emp'', ''50''), (''Rp1'', ''25''), (''Rp2'', ''30''),
             (''N_loc'', ''5''), (''R_loc'', ''200''), (''Aud_incl'', ''3''), (''N_aud'', ''8''),
             (''R_aud'', ''150'')]"

text \<open>As the example, with an infinite rate above 100 employees.\<close>

definition dados_tarifa_infinita :: DadosEntrada where
  "dados_tarifa_infinita =
     \<lparr>F_base = Num 1000, N_emp = 50, Rp1 = Num 25, Rp2 = PInf, N_loc = 5, R_loc = Num 200,
      Aud_incl = 3, N_aud = 8, R_aud = Num 150, m = arredondar 0.20\<rparr>"

text \<open>As the example, with \<open>10 ^ 309\<close> employees.\<close>

definition dados_muitos_funcionarios :: DadosEntrada where
  "dados_muitos_funcionarios =
     \<lparr>F_base = Num 1000, N_emp = 10 ^ 309, Rp1 = Num 25, Rp2 = Num 30, N_loc = 5,
      R_loc = Num 200, Aud_incl = 3, N_aud = 8, R_aud = Num 150, m = arredondar 0.20\<rparr>"

text \<open>As the example, with the rate above 100 employees submitted as \<^verbatim>\<open>inf\<close>.\<close>

definition form_tarifa_infinita :: form where
  "form_tarifa_infinita =
     map_of [(''F_base'', ''1000''), (''N_emp'', ''50''), (''Rp1'', ''25''), (''Rp2'', ''inf''),
             (''N_loc'', ''5''), (''R_loc'', ''200''), (''Aud_incl'', ''3''), (''N_aud'', ''8''),
             (''R_aud'', ''150''), (''m'', ''0.20'')]"

text \<open>
  As the example, with three hearings held, none of them extra, and the extra-hearing
  rate submitted as \<^verbatim>\<open>inf\<close>.
\<close>

definition form_audiencia_infinita :: form where
  "form_audiencia_infinita =
     map_of [(''F_base'', ''1000''), (''N_emp'', ''50''), (''Rp1'', ''25''), (''Rp2'', ''30''),
             (''N_loc'', ''5''), (''R_loc'', ''200''), (''Aud_incl'', ''3''), (''N_aud'', ''3''),
             (''R_aud'', ''inf''), (''m'', ''0.20'')]"

text \<open>As the example, with \<open>10 ^ 309\<close> employees: a one followed by 309 zeros.\<close>

definition form_muitos_funcionarios :: form where
  "form_muitos_funcionarios =
     map_of [(''F_base'', ''1000''), (''N_emp'', CHR ''1'' # replicate 309 (CHR ''0'')),
             (''Rp1'', ''25''), (''Rp2'', ''30''), (''N_loc'', ''5''), (''R_loc'', ''200''),
             (''Aud_incl'', ''3''), (''N_aud'', ''8''), (''R_aud'', ''150''), (''m'', ''0.20'')]"

section \<open>Properties\<close>

subsection \<open>Rounding\<close>

lemma meio_par_cases: "meio_par y = \<lfloor>y\<rfloor> \<or> meio_par y = \<lfloor>y\<rfloor> + 1"
  by (simp add: meio_par_def Let_def)

lemma meio_par_of_int: "meio_par (of_int k) = k"
  by (simp add: meio_par_def Let_def)

lemma meio_par_mono:
  assumes "a \<le> b"
  shows "meio_par a \<le> meio_par b"
proof (cases "\<lfloor>a\<rfloor> = \<lfloor>b\<rfloor>")
  case True
  with assms have "a - of_int \<lfloor>a\<rfloor> \<le> b - of_int \<lfloor>b\<rfloor>" by simp
  with True show ?thesis by (auto simp add: meio_par_def Let_def)
next
  case False
  with assms have "\<lfloor>a\<rfloor> < \<lfloor>b\<rfloor>" using floor_mono [OF assms] by linarith
  moreover have "meio_par a \<le> \<lfloor>a\<rfloor> + 1" using meio_par_cases [of a] by linarith
  moreover have "\<lfloor>b\<rfloor> \<le> meio_par b" using meio_par_cases [of b] by linarith
  ultimately show ?thesis by linarith
qed

lemma meio_par_ge: "of_int k \<le> y \<Longrightarrow> k \<le> meio_par y"
  using meio_par_mono [of "of_int k" y] by (simp add: meio_par_of_int)

lemma meio_par_le: "y \<le> of_int k \<Longrightarrow> meio_par y \<le> k"
  using meio_par_mono [of y "of_int k"] by (simp add: meio_par_of_int)

lemma meio_par_lt_half: "y < of_int k + 1 / 2 \<Longrightarrow> meio_par y \<le> k"
proof -
  assume a: "y < of_int k + 1 / 2"
  have fl: "\<lfloor>y\<rfloor> \<le> k" using a by (simp add: floor_le_iff)
  show ?thesis
  proof (cases "\<lfloor>y\<rfloor> = k")
    case True
    with a have "y - of_int \<lfloor>y\<rfloor> < 1 / 2" by simp
    with True show ?thesis by (simp add: meio_par_def Let_def)
  next
    case False
    with fl have "\<lfloor>y\<rfloor> + 1 \<le> k" by simp
    with meio_par_cases [of y] show ?thesis by linarith
  qed
qed

lemma powr2_int: "(2::real) powr (of_int e) = 2 powi e"
  by (simp add: powr_real_of_int')

lemma powr2_int_Suc: "(2::real) powr (of_int e + 1) = 2 powi (e + 1)"
  using powr2_int [of "e + 1"] by simp

lemma floor_log2_bounds:
  assumes "x \<noteq> 0"
  shows "2 powi \<lfloor>log 2 \<bar>x\<bar>\<rfloor> \<le> \<bar>x\<bar>" and "\<bar>x\<bar> < 2 powi (\<lfloor>log 2 \<bar>x\<bar>\<rfloor> + 1)"
proof -
  from assms have p: "0 < \<bar>x\<bar>" by simp
  have "\<lfloor>log 2 \<bar>x\<bar>\<rfloor> = \<lfloor>log 2 \<bar>x\<bar>\<rfloor>" ..
  then have "2 powr (of_int \<lfloor>log 2 \<bar>x\<bar>\<rfloor>) \<le> \<bar>x\<bar> \<and> \<bar>x\<bar> < 2 powr (of_int \<lfloor>log 2 \<bar>x\<bar>\<rfloor> + 1)"
    using floor_log_eq_powr_iff [OF p, of 2 "\<lfloor>log 2 \<bar>x\<bar>\<rfloor>"] by simp
  then show "2 powi \<lfloor>log 2 \<bar>x\<bar>\<rfloor> \<le> \<bar>x\<bar>" and "\<bar>x\<bar> < 2 powi (\<lfloor>log 2 \<bar>x\<bar>\<rfloor> + 1)"
    by (simp_all only: powr2_int powr2_int_Suc)
qed

lemma floor_log2_eq:
  assumes "2 powi e \<le> \<bar>x\<bar>" and "\<bar>x\<bar> < 2 powi (e + 1)"
  shows "\<lfloor>log 2 \<bar>x\<bar>\<rfloor> = e"
proof -
  have "(0::real) < 2 powi e" by simp
  with assms(1) have p: "0 < \<bar>x\<bar>" by linarith
  have "2 powr (of_int e) \<le> \<bar>x\<bar> \<and> \<bar>x\<bar> < 2 powr (of_int e + 1)"
    using assms by (simp only: powr2_int powr2_int_Suc)
  then show ?thesis
    using floor_log_eq_powr_iff [OF p, of 2 e] by simp
qed

lemma quantum_ge: "- 1074 \<le> quantum x"
  by (simp add: quantum_def)

lemma powi2_mono: "a \<le> b \<Longrightarrow> (2::real) powi a \<le> 2 powi b"
  by (rule power_int_increasing) simp_all

lemma powi2_pos: "(0::real) < 2 powi a"
  by simp

lemma quantum_upper:
  assumes "x \<noteq> 0"
  shows "\<bar>x\<bar> < 2 powi (quantum x + 53)"
proof -
  have "\<lfloor>log 2 \<bar>x\<bar>\<rfloor> + 1 \<le> quantum x + 53" by (simp add: quantum_def)
  then have "(2::real) powi (\<lfloor>log 2 \<bar>x\<bar>\<rfloor> + 1) \<le> 2 powi (quantum x + 53)"
    by (rule powi2_mono)
  with floor_log2_bounds(2) [OF assms] show ?thesis by linarith
qed

lemma quantum_lower:
  assumes "x \<noteq> 0" and "- 1074 < quantum x"
  shows "2 powi (quantum x + 52) \<le> \<bar>x\<bar>"
proof -
  from assms(2) have "quantum x + 52 = \<lfloor>log 2 \<bar>x\<bar>\<rfloor>" by (simp add: quantum_def max_def split: if_splits)
  with floor_log2_bounds(1) [OF assms(1)] show ?thesis by simp
qed

lemma quantum_mono:
  assumes "x \<noteq> 0" and "\<bar>x\<bar> \<le> \<bar>y\<bar>"
  shows "quantum x \<le> quantum y"
proof -
  from assms have "0 < \<bar>x\<bar>" by simp
  then have "log 2 \<bar>x\<bar> \<le> log 2 \<bar>y\<bar>" using assms(2) by simp
  then have "\<lfloor>log 2 \<bar>x\<bar>\<rfloor> \<le> \<lfloor>log 2 \<bar>y\<bar>\<rfloor>" by (rule floor_mono)
  then show ?thesis by (simp add: quantum_def)
qed

lemma quantum_eq:
  assumes "2 powi e \<le> \<bar>x\<bar>" and "\<bar>x\<bar> < 2 powi (e + 1)"
  shows "quantum x = max e (- 1022) - 52"
  using floor_log2_eq [OF assms] by (simp add: quantum_def)

lemma powi2_add: "(2::real) powi (a + b) = 2 powi a * 2 powi b"
  by (simp add: power_int_add)

lemma mantissa_le:
  assumes "x \<le> of_int k * 2 powi q"
  shows "meio_par (x / 2 powi q) \<le> k"
proof -
  from assms have "x / 2 powi q \<le> of_int k" by (simp add: pos_divide_le_eq)
  then show ?thesis by (rule meio_par_le)
qed

lemma mantissa_ge:
  assumes "of_int k * 2 powi q \<le> x"
  shows "k \<le> meio_par (x / 2 powi q)"
proof -
  from assms have "of_int k \<le> x / 2 powi q" by (simp add: pos_le_divide_eq)
  then show ?thesis by (rule meio_par_ge)
qed

lemma valor_nonzero:
  "x \<noteq> 0 \<Longrightarrow>
   valor_arredondado x = of_int (meio_par (x / 2 powi quantum x)) * 2 powi quantum x"
  by (simp add: valor_arredondado_def)

lemma mantissa_bounds:
  assumes "x \<noteq> 0"
  shows "meio_par (x / 2 powi quantum x) \<le> 2 ^ 53"
    and "- (2 ^ 53) \<le> meio_par (x / 2 powi quantum x)"
proof -
  have b: "\<bar>x\<bar> < 2 ^ 53 * 2 powi quantum x"
    using quantum_upper [OF assms] by (simp add: powi2_add mult.commute)
  have "x \<le> of_int (2 ^ 53) * 2 powi quantum x" using b by simp
  then show "meio_par (x / 2 powi quantum x) \<le> 2 ^ 53" by (rule mantissa_le)
  have "of_int (- (2 ^ 53)) * 2 powi quantum x \<le> x" using b by simp
  then show "- (2 ^ 53) \<le> meio_par (x / 2 powi quantum x)" by (rule mantissa_ge)
qed

lemma valor_nonneg: "0 \<le> x \<Longrightarrow> 0 \<le> valor_arredondado x"
proof (cases "x = 0")
  case True
  then show ?thesis by (simp add: valor_arredondado_def)
next
  case False
  assume "0 \<le> x"
  then have "of_int 0 * 2 powi quantum x \<le> x" by simp
  then have "0 \<le> meio_par (x / 2 powi quantum x)" by (rule mantissa_ge)
  then show ?thesis by (simp add: valor_nonzero [OF False])
qed

lemma valor_nonpos: "x \<le> 0 \<Longrightarrow> valor_arredondado x \<le> 0"
proof (cases "x = 0")
  case True
  then show ?thesis by (simp add: valor_arredondado_def)
next
  case False
  assume "x \<le> 0"
  then have "x \<le> of_int 0 * 2 powi quantum x" by simp
  then have "meio_par (x / 2 powi quantum x) \<le> 0" by (rule mantissa_le)
  then show ?thesis
    by (simp add: valor_nonzero [OF False] mult_le_0_iff)
qed

lemma valor_upper:
  assumes "x \<noteq> 0"
  shows "valor_arredondado x \<le> 2 ^ 53 * 2 powi quantum x"
proof -
  have "real_of_int (meio_par (x / 2 powi quantum x)) \<le> real_of_int (2 ^ 53)"
    using mantissa_bounds(1) [OF assms] by (simp only: of_int_le_iff)
  then show ?thesis
    by (simp add: valor_nonzero [OF assms])
qed

lemma valor_lower:
  assumes "x \<noteq> 0"
  shows "- (2 ^ 53 * 2 powi quantum x) \<le> valor_arredondado x"
proof -
  have "real_of_int (- (2 ^ 53)) \<le> real_of_int (meio_par (x / 2 powi quantum x))"
    using mantissa_bounds(2) [OF assms] by (simp only: of_int_le_iff)
  then have "real_of_int (- (2 ^ 53)) * 2 powi quantum x
      \<le> real_of_int (meio_par (x / 2 powi quantum x)) * 2 powi quantum x"
    by (rule mult_right_mono) simp
  then show ?thesis
    by (simp add: valor_nonzero [OF assms])
qed

lemma valor_normal_pos:
  assumes "0 < x" and "- 1074 < quantum x"
  shows "2 ^ 52 * 2 powi quantum x \<le> valor_arredondado x"
proof -
  from assms(1) have nz: "x \<noteq> 0" by simp
  have "2 ^ 52 * 2 powi quantum x \<le> \<bar>x\<bar>"
    using quantum_lower [OF nz assms(2)] by (simp add: powi2_add mult.commute)
  with assms(1) have "of_int (2 ^ 52) * 2 powi quantum x \<le> x" by simp
  then have "2 ^ 52 \<le> meio_par (x / 2 powi quantum x)" by (rule mantissa_ge)
  then have "real_of_int (2 ^ 52) \<le> real_of_int (meio_par (x / 2 powi quantum x))"
    by (simp only: of_int_le_iff)
  then show ?thesis by (simp add: valor_nonzero [OF nz])
qed

lemma valor_normal_neg:
  assumes "x < 0" and "- 1074 < quantum x"
  shows "valor_arredondado x \<le> - (2 ^ 52 * 2 powi quantum x)"
proof -
  from assms(1) have nz: "x \<noteq> 0" by simp
  have "2 ^ 52 * 2 powi quantum x \<le> \<bar>x\<bar>"
    using quantum_lower [OF nz assms(2)] by (simp add: powi2_add mult.commute)
  with assms(1) have "x \<le> of_int (- (2 ^ 52)) * 2 powi quantum x" by simp
  then have "meio_par (x / 2 powi quantum x) \<le> - (2 ^ 52)" by (rule mantissa_le)
  then have "real_of_int (meio_par (x / 2 powi quantum x)) \<le> real_of_int (- (2 ^ 52))"
    by (simp only: of_int_le_iff)
  then have "real_of_int (meio_par (x / 2 powi quantum x)) * 2 powi quantum x
      \<le> real_of_int (- (2 ^ 52)) * 2 powi quantum x"
    by (rule mult_right_mono) simp
  then show ?thesis by (simp add: valor_nonzero [OF nz])
qed

lemma valor_same_quantum:
  assumes "x \<noteq> 0" and "y \<noteq> 0" and "x \<le> y" and "quantum x = quantum y"
  shows "valor_arredondado x \<le> valor_arredondado y"
proof -
  have "x / 2 powi quantum y \<le> y / 2 powi quantum y"
    using assms(3) by (simp add: divide_right_mono)
  then have "meio_par (x / 2 powi quantum y) \<le> meio_par (y / 2 powi quantum y)"
    by (rule meio_par_mono)
  then have "real_of_int (meio_par (x / 2 powi quantum y))
      \<le> real_of_int (meio_par (y / 2 powi quantum y))"
    by (simp only: of_int_le_iff)
  then have "real_of_int (meio_par (x / 2 powi quantum y)) * 2 powi quantum y
      \<le> real_of_int (meio_par (y / 2 powi quantum y)) * 2 powi quantum y"
    by (rule mult_right_mono) simp
  then show ?thesis
    by (simp add: valor_nonzero [OF assms(1)] valor_nonzero [OF assms(2)] assms(4))
qed

lemma quantum_step: "a < b \<Longrightarrow> 2 ^ 53 * (2::real) powi a \<le> 2 ^ 52 * 2 powi b"
proof -
  assume "a < b"
  then have "a + 1 \<le> b" by simp
  then have "(2::real) powi (a + 1) \<le> 2 powi b" by (rule powi2_mono)
  then have "2 ^ 52 * (2::real) powi (a + 1) \<le> 2 ^ 52 * 2 powi b" by simp
  then show ?thesis by (simp add: powi2_add)
qed

lemma valor_mono:
  assumes "x \<le> y"
  shows "valor_arredondado x \<le> valor_arredondado y"
proof -
  consider "x \<le> 0" "0 \<le> y" | "0 < x" | "y < 0"
    using assms by linarith
  then show ?thesis
  proof cases
    case 1
    then show ?thesis using valor_nonpos [of x] valor_nonneg [of y] by linarith
  next
    case 2
    with assms have nz: "x \<noteq> 0" "y \<noteq> 0" and ab: "\<bar>x\<bar> \<le> \<bar>y\<bar>" and py: "0 < y"
      by simp_all
    have q: "quantum x \<le> quantum y" using quantum_mono [OF nz(1) ab] .
    show ?thesis
    proof (cases "quantum x = quantum y")
      case True
      then show ?thesis using valor_same_quantum [OF nz assms] by simp
    next
      case False
      with q have lt: "quantum x < quantum y" by simp
      then have "- 1074 < quantum y" using quantum_ge [of x] by linarith
      then have "2 ^ 52 * 2 powi quantum y \<le> valor_arredondado y"
        using valor_normal_pos [OF py] by simp
      moreover have "valor_arredondado x \<le> 2 ^ 53 * 2 powi quantum x"
        using valor_upper [OF nz(1)] .
      ultimately show ?thesis using quantum_step [OF lt] by linarith
    qed
  next
    case 3
    with assms have nz: "x \<noteq> 0" "y \<noteq> 0" and ab: "\<bar>y\<bar> \<le> \<bar>x\<bar>" and nx: "x < 0"
      by simp_all
    have q: "quantum y \<le> quantum x" using quantum_mono [OF nz(2) ab] .
    show ?thesis
    proof (cases "quantum x = quantum y")
      case True
      then show ?thesis using valor_same_quantum [OF nz assms] by simp
    next
      case False
      with q have lt: "quantum y < quantum x" by simp
      then have "- 1074 < quantum x" using quantum_ge [of y] by linarith
      then have "valor_arredondado x \<le> - (2 ^ 52 * 2 powi quantum x)"
        using valor_normal_neg [OF nx] by simp
      moreover have "- (2 ^ 53 * 2 powi quantum y) \<le> valor_arredondado y"
        using valor_lower [OF nz(2)] .
      ultimately show ?thesis using quantum_step [OF lt] by linarith
    qed
  qed
qed

lemma powi2_less_cancel: "(2::real) powi a < 2 powi b \<Longrightarrow> a < b"
proof (rule ccontr)
  assume l: "(2::real) powi a < 2 powi b" and "\<not> a < b"
  then have "b \<le> a" by simp
  then have "(2::real) powi b \<le> 2 powi a" by (rule powi2_mono)
  with l show False by linarith
qed

lemma powi2_diff_nat: "b \<le> a \<Longrightarrow> (2::real) powi a / 2 powi b = of_int (2 ^ nat (a - b))"
proof -
  assume le: "b \<le> a"
  have "(2::real) powi a / 2 powi b = 2 powi (a - b)"
    by (simp add: power_int_diff)
  also have "\<dots> = 2 ^ nat (a - b)"
    using le by (simp add: power_int_def)
  finally show ?thesis by simp
qed

lemma valor_rep_small:
  assumes "\<bar>k\<bar> < 2 ^ 53" and "- 1074 \<le> q"
  shows "valor_arredondado (of_int k * 2 powi q) = of_int k * 2 powi q"
proof (cases "k = 0")
  case True
  then show ?thesis by (simp add: valor_arredondado_def)
next
  case False
  define v :: real where "v = of_int k * 2 powi q"
  have nz: "v \<noteq> 0" using False by (simp add: v_def)
  have "\<bar>real_of_int k\<bar> < real_of_int (2 ^ 53)"
    using assms(1) by (simp only: of_int_abs [symmetric] of_int_less_iff)
  then have "\<bar>real_of_int k\<bar> * 2 powi q < real_of_int (2 ^ 53) * 2 powi q"
    by (rule mult_strict_right_mono) simp
  then have "\<bar>v\<bar> < 2 powi (q + 53)"
    by (simp add: v_def abs_mult powi2_add mult.commute)
  with floor_log2_bounds(1) [OF nz] have "(2::real) powi \<lfloor>log 2 \<bar>v\<bar>\<rfloor> < 2 powi (q + 53)"
    by linarith
  then have "\<lfloor>log 2 \<bar>v\<bar>\<rfloor> < q + 53" by (rule powi2_less_cancel)
  with assms(2) have le: "quantum v \<le> q" by (simp add: quantum_def)
  have "v / 2 powi quantum v = of_int k * (2 powi q / 2 powi quantum v)"
    by (simp add: v_def)
  also have "\<dots> = of_int (k * 2 ^ nat (q - quantum v))"
    by (simp add: powi2_diff_nat [OF le])
  finally have m: "meio_par (v / 2 powi quantum v) = k * 2 ^ nat (q - quantum v)"
    by (simp only: meio_par_of_int)
  have "valor_arredondado v = of_int (k * 2 ^ nat (q - quantum v)) * 2 powi quantum v"
    by (simp only: valor_nonzero [OF nz] m)
  also have "\<dots> = of_int k * (2 powi q / 2 powi quantum v * 2 powi quantum v)"
    by (simp add: powi2_diff_nat [OF le])
  also have "\<dots> = v" by (simp add: v_def)
  finally show ?thesis by (simp add: v_def)
qed

lemma valor_rep:
  assumes "\<bar>k\<bar> \<le> 2 ^ 53" and "- 1074 \<le> q"
  shows "valor_arredondado (of_int k * 2 powi q) = of_int k * 2 powi q"
proof (cases "\<bar>k\<bar> < 2 ^ 53")
  case True
  then show ?thesis using assms(2) by (rule valor_rep_small)
next
  case False
  with assms(1) have "k = 2 ^ 53 \<or> k = - (2 ^ 53)" by linarith
  then obtain s :: int where s: "\<bar>s\<bar> < 2 ^ 53" and k: "real_of_int k = of_int s * 2 powi 53"
    by (auto intro: that [of 1] that [of "- 1"])
  have "- 1074 \<le> 53 + q" using assms(2) by simp
  from valor_rep_small [OF s this] show ?thesis
    by (simp add: k powi2_add mult.assoc)
qed

lemma valor_idem: "valor_arredondado (valor_arredondado x) = valor_arredondado x"
proof (cases "x = 0")
  case True
  then show ?thesis by (simp add: valor_arredondado_def)
next
  case False
  have "\<bar>meio_par (x / 2 powi quantum x)\<bar> \<le> 2 ^ 53"
    using mantissa_bounds [OF False] by linarith
  from valor_rep [OF this quantum_ge [of x]] show ?thesis
    by (simp add: valor_nonzero [OF False])
qed

lemma valor_of_int:
  assumes "\<bar>n\<bar> \<le> 2 ^ 53"
  shows "valor_arredondado (of_int n) = of_int n"
  using valor_rep [OF assms, of 0] by simp

lemma valor_calc:
  assumes "2 powi e \<le> \<bar>x\<bar>" and "\<bar>x\<bar> < 2 powi (e + 1)"
  shows "valor_arredondado x =
           of_int (meio_par (x / 2 powi (max e (- 1022) - 52))) * 2 powi (max e (- 1022) - 52)"
proof -
  have "(0::real) < 2 powi e" by simp
  with assms(1) have "0 < \<bar>x\<bar>" by linarith
  then have "x \<noteq> 0" by simp
  then show ?thesis by (simp add: valor_nonzero quantum_eq [OF assms])
qed

lemma quantum_le_971:
  assumes "x \<noteq> 0" and "\<bar>x\<bar> < 2 ^ 1024"
  shows "quantum x \<le> 971"
proof -
  have "(2::real) powi \<lfloor>log 2 \<bar>x\<bar>\<rfloor> < 2 powi 1024"
    using floor_log2_bounds(1) [OF assms(1)] assms(2) by simp
  then have "\<lfloor>log 2 \<bar>x\<bar>\<rfloor> < 1024" by (rule powi2_less_cancel)
  then show ?thesis by (simp add: quantum_def)
qed

lemma valor_below_threshold:
  assumes "0 \<le> x" and "x < 2 ^ 1024 - 2 ^ 970"
  shows "valor_arredondado x < 2 ^ 1024"
proof (cases "x = 0")
  case True
  then show ?thesis by (simp add: valor_arredondado_def)
next
  case False
  with assms have ab: "\<bar>x\<bar> < 2 ^ 1024" by simp
  have q: "quantum x \<le> 971" using quantum_le_971 [OF False ab] .
  show ?thesis
  proof (cases "quantum x = 971")
    case True
    have "x < (of_int (2 ^ 53 - 1) + 1 / 2) * 2 powi 971"
      using assms(2) by simp
    then have "x / 2 powi 971 < of_int (2 ^ 53 - 1) + 1 / 2"
      by (simp add: pos_divide_less_eq)
    then have "meio_par (x / 2 powi 971) \<le> 2 ^ 53 - 1"
      by (rule meio_par_lt_half)
    then have "real_of_int (meio_par (x / 2 powi 971)) \<le> real_of_int (2 ^ 53 - 1)"
      by (simp only: of_int_le_iff)
    then have "real_of_int (meio_par (x / 2 powi 971)) * 2 powi 971
        \<le> real_of_int (2 ^ 53 - 1) * 2 powi 971"
      by (rule mult_right_mono) simp
    then show ?thesis
      by (simp add: valor_nonzero [OF False] True)
  next
    case False
    with q have "quantum x \<le> 970" by simp
    then have "(2::real) powi quantum x \<le> 2 powi 970" by (rule powi2_mono)
    then have "2 ^ 53 * (2::real) powi quantum x \<le> 2 ^ 53 * 2 powi 970" by simp
    with valor_upper [OF \<open>x \<noteq> 0\<close>] have "valor_arredondado x \<le> 2 ^ 53 * 2 powi 970"
      by linarith
    then show ?thesis by simp
  qed
qed

lemma valor_finite_bound:
  assumes "0 \<le> x" and "valor_arredondado x < 2 ^ 1024"
  shows "valor_arredondado x \<le> 2 ^ 1024 - 2 ^ 971"
proof (cases "x = 0")
  case True
  then show ?thesis by (simp add: valor_arredondado_def)
next
  case False
  with assms(1) have px: "0 < x" by simp
  consider "quantum x \<le> 970" | "quantum x = 971" | "972 \<le> quantum x"
    by linarith
  then show ?thesis
  proof cases
    case 1
    then have "(2::real) powi quantum x \<le> 2 powi 970" by (rule powi2_mono)
    then have "2 ^ 53 * (2::real) powi quantum x \<le> 2 ^ 53 * 2 powi 970" by simp
    with valor_upper [OF False] have "valor_arredondado x \<le> 2 ^ 53 * 2 powi 970"
      by linarith
    then show ?thesis by simp
  next
    case 2
    have "real_of_int (meio_par (x / 2 powi 971)) * 2 powi 971 < real_of_int (2 ^ 53) * 2 powi 971"
      using assms(2) by (simp add: valor_nonzero [OF False] 2)
    then have "real_of_int (meio_par (x / 2 powi 971)) < real_of_int (2 ^ 53)"
      by (simp only: mult_less_cancel_right_pos [OF powi2_pos])
    then have "meio_par (x / 2 powi 971) < 2 ^ 53"
      by (simp only: of_int_less_iff)
    then have "meio_par (x / 2 powi 971) \<le> 2 ^ 53 - 1" by simp
    then have "real_of_int (meio_par (x / 2 powi 971)) \<le> real_of_int (2 ^ 53 - 1)"
      by (simp only: of_int_le_iff)
    then have "real_of_int (meio_par (x / 2 powi 971)) * 2 powi 971
        \<le> real_of_int (2 ^ 53 - 1) * 2 powi 971"
      by (rule mult_right_mono) simp
    then show ?thesis
      by (simp add: valor_nonzero [OF False] 2)
  next
    case 3
    then have "- 1074 < quantum x" by simp
    from valor_normal_pos [OF px this] have "2 ^ 52 * 2 powi quantum x \<le> valor_arredondado x" .
    moreover have "(2::real) powi 972 \<le> 2 powi quantum x" using 3 by (rule powi2_mono)
    then have "2 ^ 52 * (2::real) powi 972 \<le> 2 ^ 52 * 2 powi quantum x" by simp
    ultimately have "2 ^ 52 * (2::real) powi 972 \<le> valor_arredondado x" by linarith
    with assms(2) show ?thesis by simp
  qed
qed

subsection \<open>Float arithmetic\<close>

lemma arredondar_zero: "arredondar 0 = Num 0"
  by (simp add: arredondar_def valor_arredondado_def)

lemma arredondar_not_NaN: "arredondar x \<noteq> NaN"
  by (simp add: arredondar_def Let_def)

lemma arredondar_Num: "arredondar x = Num v \<Longrightarrow> v = valor_arredondado x \<and> \<bar>v\<bar> < 2 ^ 1024"
  by (auto simp add: arredondar_def Let_def split: if_splits)

lemma arredondar_finite:
  "\<bar>valor_arredondado x\<bar> < 2 ^ 1024 \<Longrightarrow> arredondar x = Num (valor_arredondado x)"
  by (auto simp add: arredondar_def Let_def)

lemma arredondar_of_int:
  assumes "\<bar>n\<bar> \<le> 2 ^ 53"
  shows "arredondar (of_int n) = Num (of_int n)"
proof -
  have v: "valor_arredondado (of_int n) = of_int n" using assms by (rule valor_of_int)
  have "\<bar>real_of_int n\<bar> \<le> real_of_int (2 ^ 53)"
    using assms by (simp only: of_int_abs [symmetric] of_int_le_iff)
  then have "\<bar>real_of_int n\<bar> < 2 ^ 1024" by simp
  then show ?thesis using arredondar_finite [of "of_int n"] by (simp add: v)
qed

lemma arredondar_numeral:
  "(numeral k :: int) \<le> 2 ^ 53 \<Longrightarrow> arredondar (numeral k) = Num (numeral k)"
  using arredondar_of_int [of "numeral k"] by simp

lemma arredondar_neg_numeral:
  "(numeral k :: int) \<le> 2 ^ 53 \<Longrightarrow> arredondar (- numeral k) = Num (- numeral k)"
  using arredondar_of_int [of "- numeral k"] by simp

lemma arredondar_one: "arredondar 1 = Num 1"
  using arredondar_of_int [of 1] by simp

lemma arredondar_mono: "x \<le> y \<Longrightarrow> fle (arredondar x) (arredondar y)"
  using valor_mono [of x y] by (auto simp add: arredondar_def Let_def)

lemma arredondar_nonneg: "0 \<le> x \<Longrightarrow> fle (Num 0) (arredondar x)"
  using arredondar_mono [of 0 x] by (simp add: arredondar_zero)

lemma arredondar_idem: "arredondar x = Num v \<Longrightarrow> arredondar v = Num v"
proof -
  assume a: "arredondar x = Num v"
  then have v: "v = valor_arredondado x" and b: "\<bar>v\<bar> < 2 ^ 1024"
    using arredondar_Num by simp_all
  have "valor_arredondado v = v" by (simp add: v valor_idem)
  with b show ?thesis using arredondar_finite [of v] by simp
qed

lemma arredondar_calc:
  assumes "2 powi e \<le> \<bar>x\<bar>" and "\<bar>x\<bar> < 2 powi (e + 1)"
    and "k = meio_par (x / 2 powi (max e (- 1022) - 52))"
    and "\<bar>of_int k * 2 powi (max e (- 1022) - 52)\<bar> < (2::real) ^ 1024"
  shows "arredondar x = Num (of_int k * 2 powi (max e (- 1022) - 52))"
  using arredondar_finite [of x] assms(3,4) by (simp add: valor_calc [OF assms(1,2)])

lemma arredondar_overflow:
  assumes "2 ^ 1024 \<le> x"
  shows "arredondar x = PInf"
proof -
  have "valor_arredondado (of_int 1 * 2 powi 1024) = of_int 1 * 2 powi 1024"
    by (rule valor_rep) simp_all
  then have "valor_arredondado (2 ^ 1024) = 2 ^ 1024" by simp
  with valor_mono [OF assms] have "2 ^ 1024 \<le> valor_arredondado x" by simp
  then show ?thesis by (simp add: arredondar_def Let_def)
qed

lemma arredondar_0_20: "arredondar 0.20 = Num (3602879701896397 / 2 ^ 54)"
proof -
  have "arredondar (1 / 5) = Num (of_int 7205759403792794 * 2 powi (max (- 3) (- 1022) - 52))"
    by (rule arredondar_calc) (simp_all add: meio_par_def Let_def power_int_minus)
  then show ?thesis by (simp add: power_int_minus)
qed

lemma float_de_int_small: "\<bar>n\<bar> \<le> 2 ^ 53 \<Longrightarrow> float_de_int n = Inr (Num (of_int n))"
  by (simp add: float_de_int_def arredondar_of_int)

lemma float_de_int_numeral:
  "(numeral k :: int) \<le> 2 ^ 53 \<Longrightarrow> float_de_int (numeral k) = Inr (Num (numeral k))"
  using float_de_int_small [of "numeral k"] by simp

lemma float_de_int_zero: "float_de_int 0 = Inr (Num 0)"
  using float_de_int_small [of 0] by simp

lemma float_de_int_one: "float_de_int 1 = Inr (Num 1)"
  using float_de_int_small [of 1] by simp

lemma float_de_int_cases:
  "float_de_int n = Inl OverflowError
   \<or> (float_de_int n = Inr (Num (valor_arredondado (of_int n)))
      \<and> arredondar (of_int n) = Num (valor_arredondado (of_int n)))"
proof (cases "arredondar (of_int n)")
  case (Num v)
  with arredondar_Num [OF Num] show ?thesis by (simp add: float_de_int_def)
qed (simp_all add: float_de_int_def)

lemma float_de_int_Inr:
  "float_de_int n = Inr a \<Longrightarrow>
   a = arredondar (of_int n) \<and> a = Num (valor_arredondado (of_int n))"
  using float_de_int_cases [of n] by auto

lemma float_de_int_overflow: "2 ^ 1024 \<le> n \<Longrightarrow> float_de_int n = Inl OverflowError"
proof -
  assume "2 ^ 1024 \<le> n"
  then have "real_of_int (2 ^ 1024) \<le> real_of_int n" by (simp only: of_int_le_iff)
  then have "arredondar (of_int n) = PInf" by (intro arredondar_overflow) simp
  then show ?thesis by (simp add: float_de_int_def)
qed

lemmas eval_float = arredondar_numeral arredondar_neg_numeral arredondar_zero arredondar_one
  float_de_int_numeral float_de_int_zero float_de_int_one int_vezes_float_def
  int_mais_float_def

lemmas calc_defs = calcular_precificacao_def calcular_custo_funcionarios_def
  calcular_custo_postos_def calcular_custo_audiencias_extras_def

lemma um_mais_0_20: "fadd (Num 1) (arredondar 0.20) = Num (5404319552844595 / 2 ^ 52)"
proof -
  have "arredondar (1 + 3602879701896397 / 2 ^ 54)
      = Num (of_int 5404319552844595 * 2 powi (max 0 (- 1022) - 52))"
    by (rule arredondar_calc) (simp_all add: meio_par_def Let_def power_int_minus)
  then show ?thesis by (simp add: arredondar_0_20 [simplified] power_int_minus)
qed

lemma preco_exemplo: "fmul (Num 4000) (Num (5404319552844595 / 2 ^ 52)) = Num 4800"
proof -
  have "arredondar (4000 * (5404319552844595 / 2 ^ 52))
      = Num (of_int 5277655813324800 * 2 powi (max 12 (- 1022) - 52))"
    by (rule arredondar_calc) (simp_all add: meio_par_def Let_def power_int_minus)
  then show ?thesis by (simp add: power_int_minus)
qed

lemma calcular_exemplo:
  "calcular_precificacao dados_exemplo =
     Inr \<lparr>C_emp = Num 1250, C_loc = Num 1000, C_aud = Num 750, Custo_bruto = Num 4000,
          Preco = Num 4800\<rparr>"
  by (simp add: calc_defs dados_exemplo_def eval_float Let_def um_mais_0_20 [simplified]
      preco_exemplo [simplified])

lemma funcionarios_150: "calcular_custo_funcionarios 150 (Num 25) (Num 30) = Inr (Num 4000)"
  by (simp add: calc_defs eval_float)

lemma fle_refl_Num: "fle (Num a) (Num a)"
  by simp

lemma fle_zero_cases: "fle (Num 0) x \<Longrightarrow> x = PInf \<or> (\<exists>v. x = Num v \<and> 0 \<le> v)"
  by (cases x) simp_all

lemma finito_Num: "finito x \<Longrightarrow> \<exists>v. x = Num v \<and> arredondar v = Num v"
  by (cases x) (simp_all add: finito_def)

lemma fadd_nonneg: "fle (Num 0) a \<Longrightarrow> fle (Num 0) b \<Longrightarrow> fle (Num 0) (fadd a b)"
  by (cases a; cases b) (simp_all add: arredondar_nonneg)

lemma fmul_nonneg:
  "0 \<le> v \<Longrightarrow> 0 \<le> w \<Longrightarrow> fle (Num 0) (fmul (Num v) (Num w))"
  by (simp add: arredondar_nonneg)

lemma fadd_Num_idem: "fadd a b = Num g \<Longrightarrow> arredondar g = Num g"
  by (cases a; cases b) (auto dest: arredondar_idem)

lemma fmul_Num_idem: "fmul a b = Num g \<Longrightarrow> arredondar g = Num g"
  by (cases a; cases b) (auto dest: arredondar_idem split: if_splits)

lemma fadd_zero_right: "fadd (fmul a b) (Num 0) = fmul a b"
proof (cases "fmul a b")
  case (Num g)
  then show ?thesis using fmul_Num_idem [OF Num] by simp
qed simp_all

lemma fmul_not_NaN: "fmul (Num v) (Num w) \<noteq> NaN"
  by (simp add: arredondar_not_NaN)

lemma fle_PInf: "x \<noteq> NaN \<Longrightarrow> fle x PInf"
  by (cases x) simp_all

lemma fle_NInf: "x \<noteq> NaN \<Longrightarrow> fle NInf x"
  by (cases x) simp_all

lemma fadd_mono:
  assumes "fle a a'" and "fle b b'" and "fadd a b \<noteq> NaN" and "fadd a' b' \<noteq> NaN"
  shows "fle (fadd a b) (fadd a' b')"
  using assms
  by (cases a; cases b; cases a'; cases b')
    (simp_all add: arredondar_mono fle_PInf fle_NInf arredondar_not_NaN)

lemma fmul_mono_left:
  assumes "x \<le> y" and "0 \<le> w"
  shows "fle (fmul (Num x) (Num w)) (fmul (Num y) (Num w))"
  using assms by (simp add: arredondar_mono mult_right_mono)

subsection \<open>The calculator\<close>

lemma valor_int_mono: "i \<le> j \<Longrightarrow> valor_arredondado (of_int i) \<le> valor_arredondado (of_int j)"
  by (rule valor_mono) simp

lemma valor_int_nonneg: "0 \<le> i \<Longrightarrow> 0 \<le> valor_arredondado (of_int i)"
  by (rule valor_nonneg) simp

lemma valor_zero: "valor_arredondado 0 = 0"
  by (simp add: valor_arredondado_def)

lemma valor_100: "valor_arredondado 100 = 100"
  using valor_of_int [of 100] by simp

lemma funcionarios_Inr:
  assumes "calcular_custo_funcionarios n rp1 rp2 = Inr c"
  shows "c = fadd (fmul (Num (valor_arredondado (of_int (min n 100)))) rp1)
                  (fmul (Num (valor_arredondado (of_int (max 0 (n - 100))))) rp2)"
  using assms float_de_int_cases [of "min n 100"] float_de_int_cases [of "max 0 (n - 100)"]
  by (auto simp add: calcular_custo_funcionarios_def int_vezes_float_def)

lemma funcionarios_ate_100:
  assumes "n \<le> 100"
  shows "calcular_custo_funcionarios n rp1 (Num r2) = int_vezes_float n rp1"
proof -
  from assms have mn: "min n 100 = n" and mx: "max 0 (n - 100) = 0" by simp_all
  show ?thesis
    by (cases "float_de_int n")
      (simp_all add: calcular_custo_funcionarios_def int_vezes_float_def mn mx
        float_de_int_zero arredondar_zero fadd_zero_right)
qed

lemma funcionarios_acima_100:
  assumes "100 \<le> n"
  shows "calcular_custo_funcionarios n rp1 rp2 =
           seguir (int_vezes_float (n - 100) rp2) (\<lambda>b. Inr (fadd (fmul (Num 100) rp1) b))"
proof -
  from assms have mn: "min n 100 = 100" and mx: "max 0 (n - 100) = n - 100" by simp_all
  show ?thesis
    by (cases "float_de_int (n - 100)")
      (simp_all add: calcular_custo_funcionarios_def int_vezes_float_def mn mx
        float_de_int_numeral)
qed

lemma funcionarios_not_NaN:
  assumes "0 \<le> r1" and "0 \<le> r2"
  shows "fadd (fmul (Num (valor_arredondado (of_int (min n 100)))) (Num r1))
              (fmul (Num (valor_arredondado (of_int (max 0 (n - 100))))) (Num r2)) \<noteq> NaN"
proof (cases "n \<le> 100")
  case True
  then have "max 0 (n - 100) = 0" by simp
  then show ?thesis
    using fadd_zero_right [of "Num (valor_arredondado (of_int (min n 100)))" "Num r1"]
    by (simp add: valor_zero arredondar_zero arredondar_not_NaN)
next
  case False
  then have mn: "min n 100 = 100" and mx: "0 \<le> max 0 (n - 100)" by simp_all
  have a: "fle (Num 0) (fmul (Num (valor_arredondado (of_int (min n 100)))) (Num r1))"
    using assms(1) by (simp add: mn valor_100 arredondar_nonneg)
  have b: "fle (Num 0) (fmul (Num (valor_arredondado (of_int (max 0 (n - 100))))) (Num r2))"
    using assms(2) valor_int_nonneg [OF mx] by (intro fmul_nonneg) simp_all
  from fadd_nonneg [OF a b] show ?thesis by (auto simp del: fmul.simps fadd.simps)
qed

lemma int_vezes_float_nonneg:
  assumes "0 \<le> n" and "fle (Num 0) x" and "finito x" and "int_vezes_float n x = Inr c"
  shows "fle (Num 0) c"
proof -
  from assms(2,3) obtain w where w: "x = Num w" "0 \<le> w"
    using finito_Num by fastforce
  from assms(4) have "c = fmul (Num (valor_arredondado (of_int n))) x"
    using float_de_int_cases [of n] by (auto simp add: int_vezes_float_def)
  then show ?thesis
    using valor_int_nonneg [OF assms(1)] w(2) by (simp add: w(1) arredondar_nonneg)
qed

lemma funcionarios_nonneg:
  assumes "0 \<le> n" and "fle (Num 0) rp1" and "finito rp1" and "fle (Num 0) rp2"
    and "finito rp2" and "calcular_custo_funcionarios n rp1 rp2 = Inr c"
  shows "fle (Num 0) c"
proof -
  from assms(6) obtain a b where a: "int_vezes_float (min n 100) rp1 = Inr a"
    and b: "int_vezes_float (max 0 (n - 100)) rp2 = Inr b" and c: "c = fadd a b"
    by (cases "int_vezes_float (min n 100) rp1"; cases "int_vezes_float (max 0 (n - 100)) rp2")
      (simp_all add: calcular_custo_funcionarios_def)
  have "0 \<le> min n 100" using assms(1) by simp
  from int_vezes_float_nonneg [OF this assms(2,3) a]
    int_vezes_float_nonneg [OF _ assms(4,5) b]
  show ?thesis by (simp add: c fadd_nonneg del: fadd.simps)
qed

lemma um_mais_finito:
  assumes "finito x" and "fle (Num 0) x"
  shows "\<exists>t. fadd (Num 1) x = Num t \<and> 1 \<le> t"
proof -
  from assms obtain w where w: "x = Num w" "0 \<le> w" and rw: "arredondar w = Num w"
    using finito_Num by fastforce
  from arredondar_Num [OF rw] have vw: "valor_arredondado w = w" and "\<bar>w\<bar> < 2 ^ 1024"
    by simp_all
  then have bw: "w < 2 ^ 1024" by linarith
  from valor_finite_bound [OF w(2)] vw bw have "w \<le> 2 ^ 1024 - 2 ^ 971" by simp
  then have "1 + w < 2 ^ 1024 - 2 ^ 970" by simp
  moreover have p: "0 \<le> 1 + w" using w(2) by simp
  ultimately have up: "valor_arredondado (1 + w) < 2 ^ 1024"
    by (rule valor_below_threshold [rotated])
  have "valor_arredondado 1 \<le> valor_arredondado (1 + w)"
    using w(2) by (intro valor_mono) simp
  moreover have "valor_arredondado 1 = 1" using valor_of_int [of 1] by simp
  ultimately have lo: "1 \<le> valor_arredondado (1 + w)" by simp
  from up lo have "arredondar (1 + w) = Num (valor_arredondado (1 + w))"
    by (intro arredondar_finite) simp
  with lo show ?thesis by (simp add: w(1))
qed

lemma preco_ge_custo:
  assumes "fle (Num 0) g" and "g = fadd a b" and "1 \<le> t"
  shows "fle (Num 0) (fmul g (Num t)) \<and> fle g (fmul g (Num t))"
proof -
  from fle_zero_cases [OF assms(1)] show ?thesis
  proof
    assume "g = PInf"
    then show ?thesis using assms(3) by simp
  next
    assume "\<exists>v. g = Num v \<and> 0 \<le> v"
    then obtain v where v: "g = Num v" "0 \<le> v" by blast
    have rv: "arredondar v = Num v" using fadd_Num_idem [of a b v] assms(2) v(1) by simp
    have "v * 1 \<le> v * t" using v(2) assms(3) by (intro mult_left_mono) simp_all
    then have "v \<le> v * t" by simp
    from arredondar_mono [OF this] have "fle (Num v) (arredondar (v * t))" by (simp add: rv)
    moreover have "0 \<le> v * t" using v(2) assms(3) by simp
    then have "fle (Num 0) (arredondar (v * t))" by (rule arredondar_nonneg)
    ultimately show ?thesis by (simp add: v(1))
  qed
qed

lemma calcular_retorna:
  "(\<exists>r. calcular_precificacao d = Inr r) \<longleftrightarrow>
     convertivel (min (N_emp d) 100) \<and> convertivel (max 0 (N_emp d - 100))
     \<and> convertivel (N_loc d) \<and> convertivel (max 0 (N_aud d - Aud_incl d))"
  by (cases "float_de_int (min (N_emp d) 100)"; cases "float_de_int (max 0 (N_emp d - 100))";
      cases "float_de_int (N_loc d)"; cases "float_de_int (max 0 (N_aud d - Aud_incl d))")
    (simp_all add: calc_defs convertivel_def int_vezes_float_def int_mais_float_def
      float_de_int_one Let_def)

subsection \<open>The validator and the request handler\<close>


lemma regras_negocio_mensagem:
  "\<not> fst (regras_negocio d) \<Longrightarrow> snd (regras_negocio d) \<in> set mensagens_regra"
  by (auto simp add: regras_negocio_def mensagens_regra_def split: if_splits)

lemma regras_negocio_negativo: "algum_negativo d \<Longrightarrow> \<not> fst (regras_negocio d)"
  by (auto simp add: regras_negocio_def algum_negativo_def)

lemma regras_negocio_audiencias: "N_aud d < Aud_incl d \<Longrightarrow> \<not> fst (regras_negocio d)"
  by (simp add: regras_negocio_def)

lemma validar_aceita_ler:
  "fst (validar_dados_entrada pfloat pint form_data) \<Longrightarrow>
   \<exists>d. ler_campos pfloat pint form_data = Some d \<and> fst (regras_negocio d)"
  by (simp add: validar_dados_entrada_def split: option.splits)

lemma validar_lido:
  "ler_campos pfloat pint form_data = Some d \<Longrightarrow>
   validar_dados_entrada pfloat pint form_data = regras_negocio d"
  by (simp add: validar_dados_entrada_def)

lemma validar_nao_lido:
  "ler_campos pfloat pint form_data = None \<Longrightarrow>
   validar_dados_entrada pfloat pint form_data = (False, msg_erro_dados)"
  by (simp add: validar_dados_entrada_def)

text \<open>A rejected form leaves the validator's message and no result.\<close>

lemma index_rejeitado:
  "\<not> fst (validar_dados_entrada pfloat pint form_data) \<Longrightarrow>
   index pfloat pint POST form_data =
     \<lparr>flashes = [(snd (validar_dados_entrada pfloat pint form_data), ''error'')],
      resultado = None\<rparr>"
  by (cases "validar_dados_entrada pfloat pint form_data") (simp add: index_def)

lemma index_aceito:
  "fst (validar_dados_entrada pfloat pint form_data) \<Longrightarrow>
   index pfloat pint POST form_data =
     (case processar_dados_formulario pfloat pint form_data of
        Some dados \<Rightarrow>
          (case calcular_precificacao dados of
             Inr r \<Rightarrow> \<lparr>flashes = [(msg_sucesso, ''success'')], resultado = Some r\<rparr>
           | Inl e \<Rightarrow> \<lparr>flashes = [(msg_erro_inesperado e, ''error'')], resultado = None\<rparr>)
      | None \<Rightarrow> \<lparr>flashes = [(msg_erro_processar, ''error'')], resultado = None\<rparr>)"
  by (cases "validar_dados_entrada pfloat pint form_data") (simp add: index_def)

lemma index_GET: "index pfloat pint GET form_data = \<lparr>flashes = [], resultado = None\<rparr>"
  by (simp add: index_def)

text \<open>On a field that was submitted, the two ways of reading it agree.\<close>

lemma float_item_get:
  "form_data k \<noteq> None \<Longrightarrow> float_get pfloat form_data k = Some x \<Longrightarrow>
   float_item pfloat form_data k = Inr x"
  by (auto simp add: float_get_def float_item_def)

lemma int_item_get:
  "form_data k \<noteq> None \<Longrightarrow> int_get pint form_data k = Some x \<Longrightarrow>
   int_item pint form_data k = Inr x"
  by (auto simp add: int_get_def int_item_def)

lemma processar_presentes:
  assumes "set campos \<subseteq> dom form_data"
    and "ler_campos pfloat pint form_data = Some d"
  shows "processar_dados_formulario pfloat pint form_data = Some d"
proof -
  from assms(1) have "\<forall>k \<in> set campos. form_data k \<noteq> None"
    by blast
  with assms(2) show ?thesis
    by (auto simp add: campos_def ler_campos_def processar_dados_formulario_def
        construir_dados_def float_item_get int_item_get split: Option.bind_splits)
qed

text \<open>Once every field is read, a negative field of the form is one of the record.\<close>

lemma ler_negativo:
  "ler_campos pfloat pint form_data = Some d \<Longrightarrow>
   campo_negativo pfloat pint form_data = algum_negativo d"
  by (auto simp add: ler_campos_def campo_negativo_def algum_negativo_def
      split: Option.bind_splits)

lemma rejeita_negativo:
  assumes "campo_negativo pfloat pint form_data"
  shows "\<not> fst (validar_dados_entrada pfloat pint form_data)"
proof (cases "ler_campos pfloat pint form_data")
  case None
  then show ?thesis by (simp add: validar_nao_lido)
next
  case (Some d)
  with assms have "algum_negativo d" by (simp add: ler_negativo)
  then show ?thesis using Some by (simp add: validar_lido regras_negocio_negativo)
qed

subsection \<open>The sample inputs, evaluated\<close>

lemmas msg_defs = msg_F_base_def msg_N_emp_def msg_Rp_def msg_N_loc_def msg_R_loc_def
  msg_audiencias_def msg_total_incluidas_def msg_R_aud_def msg_m_negativa_def msg_m_alta_def
  msg_erro_dados_def

lemma arredondar_minus_one: "arredondar (- 1) = Num (- 1)"
  using arredondar_of_int [of "- 1"] by simp

lemma digits_val_zeros:
  "digits_val (replicate k (CHR ''0'')) acc = Some (acc * 10 ^ k)"
  by (induction k arbitrary: acc) (simp_all add: digit_of_def)

lemma dec_int_grande: "dec_int (CHR ''1'' # replicate 309 (CHR ''0'')) = Some (10 ^ 309)"
  by (simp add: dec_int_def nat_lit_def digit_of_def digits_val_zeros)

lemmas dec_defs = dec_float_def dec_int_def dec_unsigned_def nat_lit_def digit_of_def

lemmas eval_dec = dec_defs arredondar_numeral arredondar_neg_numeral arredondar_zero
  arredondar_one arredondar_minus_one

lemma ler_campos_exemplo: "ler_campos dec_float dec_int form_exemplo = Some dados_exemplo"
  by (simp add: ler_campos_def float_get_def int_get_def form_exemplo_def dados_exemplo_def
      eval_dec)


lemma ler_campos_menos_audiencias:
  "ler_campos dec_float dec_int form_menos_audiencias = Some dados_menos_audiencias"
  by (simp add: ler_campos_def float_get_def int_get_def form_menos_audiencias_def
      dados_menos_audiencias_def eval_dec)

lemma ler_campos_negativo:
  "ler_campos dec_float dec_int form_negativo = Some dados_negativo"
  by (simp add: ler_campos_def float_get_def int_get_def form_negativo_def
      dados_negativo_def eval_dec)

lemma ler_campos_sem_margem:
  "ler_campos dec_float dec_int form_sem_margem = Some (dados_exemplo\<lparr>m := Num 0\<rparr>)"
  by (simp add: ler_campos_def float_get_def int_get_def form_sem_margem_def
      dados_exemplo_def eval_dec)

lemma ler_campos_tarifa_infinita:
  "ler_campos dec_float dec_int form_tarifa_infinita = Some dados_tarifa_infinita"
  by (simp add: ler_campos_def float_get_def int_get_def form_tarifa_infinita_def
      dados_tarifa_infinita_def eval_dec)

lemma ler_campos_muitos_funcionarios:
  "ler_campos dec_float dec_int form_muitos_funcionarios = Some dados_muitos_funcionarios"
  by (simp add: ler_campos_def float_get_def int_get_def form_muitos_funcionarios_def
      dados_muitos_funcionarios_def eval_dec digits_val_zeros)

lemma calcular_tarifa_infinita:
  "calcular_precificacao dados_tarifa_infinita =
     Inr \<lparr>C_emp = NaN, C_loc = Num 1000, C_aud = Num 750, Custo_bruto = NaN, Preco = NaN\<rparr>"
  by (simp add: calc_defs dados_tarifa_infinita_def eval_float Let_def
      um_mais_0_20 [simplified])

lemma calcular_muitos_funcionarios:
  "calcular_precificacao dados_muitos_funcionarios = Inl OverflowError"
proof -
  have "float_de_int (10 ^ 309 - 100) = Inl OverflowError"
    by (rule float_de_int_overflow) simp
  then show ?thesis
    by (simp add: calc_defs dados_muitos_funcionarios_def eval_float)
qed

lemma campos_exemplo: "set campos \<subseteq> dom form_exemplo"
  by (simp add: campos_def form_exemplo_def)

lemma campos_muitos_funcionarios: "set campos \<subseteq> dom form_muitos_funcionarios"
  by (simp add: campos_def form_muitos_funcionarios_def)

lemma campos_tarifa_infinita: "set campos \<subseteq> dom form_tarifa_infinita"
  by (simp add: campos_def form_tarifa_infinita_def)

lemma campos_audiencia_infinita: "set campos \<subseteq> dom form_audiencia_infinita"
  by (simp add: campos_def form_audiencia_infinita_def)

lemmas arredondar_um_quinto = arredondar_0_20 [simplified]

lemma nao_negativos_exemplo: "nao_negativos dados_exemplo"
  by (simp add: nao_negativos_def dados_exemplo_def arredondar_um_quinto)

lemma campos_finitos_exemplo: "campos_finitos dados_exemplo"
  by (simp add: campos_finitos_def finito_def dados_exemplo_def arredondar_numeral
      arredondar_idem [OF arredondar_um_quinto] arredondar_um_quinto)

lemma validar_exemplo: "validar_dados_entrada dec_float dec_int form_exemplo = (True, [])"
  by (simp add: validar_lido [OF ler_campos_exemplo] regras_negocio_def dados_exemplo_def
      arredondar_um_quinto)

lemma validar_sem_margem: "validar_dados_entrada dec_float dec_int form_sem_margem = (True, [])"
  by (simp add: validar_lido [OF ler_campos_sem_margem] regras_negocio_def dados_exemplo_def)

lemma validar_tarifa_infinita:
  "validar_dados_entrada dec_float dec_int form_tarifa_infinita = (True, [])"
  by (simp add: validar_lido [OF ler_campos_tarifa_infinita] regras_negocio_def
      dados_tarifa_infinita_def arredondar_um_quinto)

lemma validar_muitos_funcionarios:
  "validar_dados_entrada dec_float dec_int form_muitos_funcionarios = (True, [])"
  by (simp add: validar_lido [OF ler_campos_muitos_funcionarios] regras_negocio_def
      dados_muitos_funcionarios_def arredondar_um_quinto)

lemma ler_campos_audiencia_infinita:
  "ler_campos dec_float dec_int form_audiencia_infinita =
     Some (dados_exemplo\<lparr>N_aud := 3, R_aud := PInf\<rparr>)"
  by (simp add: ler_campos_def float_get_def int_get_def form_audiencia_infinita_def
      dados_exemplo_def eval_dec)

lemma validar_audiencia_infinita:
  "validar_dados_entrada dec_float dec_int form_audiencia_infinita = (True, [])"
  by (simp add: validar_lido [OF ler_campos_audiencia_infinita] regras_negocio_def
      dados_exemplo_def arredondar_um_quinto)

lemma calcular_audiencia_infinita:
  "calcular_precificacao (dados_exemplo\<lparr>N_aud := 3, R_aud := PInf\<rparr>) =
     Inr \<lparr>C_emp = Num 1250, C_loc = Num 1000, C_aud = NaN, Custo_bruto = NaN, Preco = NaN\<rparr>"
  by (simp add: calc_defs dados_exemplo_def eval_float Let_def um_mais_0_20 [simplified])

lemma index_muitos_funcionarios:
  "index dec_float dec_int POST form_muitos_funcionarios =
     \<lparr>flashes = [(msg_erro_inesperado OverflowError, ''error'')], resultado = None\<rparr>"
  by (simp add: index_aceito validar_muitos_funcionarios calcular_muitos_funcionarios
      processar_presentes [OF campos_muitos_funcionarios ler_campos_muitos_funcionarios])

lemma index_audiencia_infinita:
  "index dec_float dec_int POST form_audiencia_infinita =
     \<lparr>flashes = [(msg_sucesso, ''success'')],
      resultado = Some \<lparr>C_emp = Num 1250, C_loc = Num 1000, C_aud = NaN, Custo_bruto = NaN,
                        Preco = NaN\<rparr>\<rparr>"
  by (simp add: index_aceito validar_audiencia_infinita calcular_audiencia_infinita
      processar_presentes [OF campos_audiencia_infinita ler_campos_audiencia_infinita])

lemma index_tarifa_infinita:
  "index dec_float dec_int POST form_tarifa_infinita =
     \<lparr>flashes = [(msg_sucesso, ''success'')],
      resultado = Some \<lparr>C_emp = NaN, C_loc = Num 1000, C_aud = Num 750, Custo_bruto = NaN,
                        Preco = NaN\<rparr>\<rparr>"
  by (simp add: index_aceito validar_tarifa_infinita calcular_tarifa_infinita
      processar_presentes [OF campos_tarifa_infinita ler_campos_tarifa_infinita])

text \<open>The float written 0.1, twice it and three times it.\<close>

lemma arredondar_0_1: "arredondar 0.1 = Num (3602879701896397 / 2 ^ 55)"
proof -
  have "arredondar (1 / 10) = Num (of_int 7205759403792794 * 2 powi (max (- 4) (- 1022) - 52))"
    by (rule arredondar_calc) (simp_all add: meio_par_def Let_def power_int_minus)
  then show ?thesis by (simp add: power_int_minus)
qed

lemma dobro_0_1: "fmul (Num 2) (Num (3602879701896397 / 2 ^ 55)) = Num (3602879701896397 / 2 ^ 54)"
proof -
  have "arredondar (2 * (3602879701896397 / 2 ^ 55))
      = Num (of_int 7205759403792794 * 2 powi (max (- 3) (- 1022) - 52))"
    by (rule arredondar_calc) (simp_all add: meio_par_def Let_def power_int_minus)
  then show ?thesis by (simp add: power_int_minus)
qed

lemma triplo_0_1: "fmul (Num 3) (Num (3602879701896397 / 2 ^ 55)) = Num (5404319552844596 / 2 ^ 54)"
proof -
  have "arredondar (3 * (3602879701896397 / 2 ^ 55))
      = Num (of_int 5404319552844596 * 2 powi (max (- 2) (- 1022) - 52))"
    by (rule arredondar_calc) (simp_all add: meio_par_def Let_def power_int_minus)
  then show ?thesis by (simp add: power_int_minus)
qed

lemma funcionarios_2_3:
  "calcular_custo_funcionarios 2 (arredondar 0.1) (arredondar 0.1)
     = Inr (Num (3602879701896397 / 2 ^ 54))"
  "calcular_custo_funcionarios 3 (arredondar 0.1) (arredondar 0.1)
     = Inr (Num (5404319552844596 / 2 ^ 54))"
  by (simp_all add: arredondar_0_1 [simplified] funcionarios_ate_100 int_vezes_float_def
      float_de_int_numeral dobro_0_1 [simplified] triplo_0_1 [simplified])

section \<open>Claims\<close>

subsection \<open>The Pricing Calculator\<close>

text \<open>
  C1. For every input record whose fields are all non-negative, with total hearings at
  least the included ones and the margin at most 10, the result of the calculator has
  its gross cost equal to the base fee plus the three component costs of the result, and
  its final price equal to the gross cost times one plus the margin, sums and products
  being those of the floats.
\<close>

theorem calcular_precificacao_composicao:
  assumes "nao_negativos d" and "Aud_incl d \<le> N_aud d" and "fle (m d) (Num 10)"
    and "calcular_precificacao d = Inr r"
  shows "Custo_bruto r = fadd (fadd (fadd (F_base d) (C_emp r)) (C_loc r)) (C_aud r)
         \<and> Preco r = fmul (Custo_bruto r) (fadd (Num 1) (m d))"
  using assms(4)
  by (cases "calcular_custo_funcionarios (N_emp d) (Rp1 d) (Rp2 d)";
      cases "calcular_custo_postos (N_loc d) (R_loc d)";
      cases "calcular_custo_audiencias_extras (N_aud d) (Aud_incl d) (R_aud d)")
    (auto simp add: calcular_precificacao_def Let_def int_mais_float_def float_de_int_one)

theorem calcular_precificacao_composicao_witness:
  "nao_negativos dados_exemplo \<and> Aud_incl dados_exemplo \<le> N_aud dados_exemplo
   \<and> fle (m dados_exemplo) (Num 10)
   \<and> calcular_precificacao dados_exemplo =
       Inr \<lparr>C_emp = Num 1250, C_loc = Num 1000, C_aud = Num 750, Custo_bruto = Num 4000,
            Preco = Num 4800\<rparr>
   \<and> Num 4000 = fadd (fadd (fadd (Num 1000) (Num 1250)) (Num 1000)) (Num 750)
   \<and> Num 4800 = fmul (Num 4000) (fadd (Num 1) (arredondar 0.20))"
proof -
  have h2: "Aud_incl dados_exemplo \<le> N_aud dados_exemplo"
    by (simp add: dados_exemplo_def)
  have h3: "fle (m dados_exemplo) (Num 10)"
    by (simp add: dados_exemplo_def arredondar_um_quinto)
  have f: "F_base dados_exemplo = Num 1000" and mm: "m dados_exemplo = arredondar 0.20"
    by (simp_all add: dados_exemplo_def)
  from calcular_precificacao_composicao [OF nao_negativos_exemplo h2 h3 calcular_exemplo]
  have "Num 4000 = fadd (fadd (fadd (Num 1000) (Num 1250)) (Num 1000)) (Num 750)
        \<and> Num 4800 = fmul (Num 4000) (fadd (Num 1) (arredondar 0.20))"
    by (simp only: f mm ResultadoCalculo.simps)
  with nao_negativos_exemplo h2 h3 calcular_exemplo show ?thesis
    by (simp only: simp_thms)
qed

text \<open>
  C2. For every employee count and pair of rates, the employee cost is
  \<open>min(N_emp, 100) * Rp1 + max(0, N_emp - 100) * Rp2\<close>, each count converted to a
  float, with the products and the sum of the floats; for 150 employees at the rates 25
  and 30 it is \<open>100 * 25 + 50 * 30 = 4000\<close>.
\<close>

theorem calcular_custo_funcionarios_formula:
  "calcular_custo_funcionarios n_emp rp1 rp2 =
     seguir (float_de_int (min n_emp 100)) (\<lambda>a.
     seguir (float_de_int (max 0 (n_emp - 100))) (\<lambda>b.
     Inr (fadd (fmul a rp1) (fmul b rp2))))
   \<and> calcular_custo_funcionarios 150 (Num 25) (Num 30) = Inr (Num (100 * 25 + 50 * 30))
   \<and> calcular_custo_funcionarios 150 (Num 25) (Num 30) = Inr (Num 4000)"
proof -
  have "calcular_custo_funcionarios n_emp rp1 rp2 =
     seguir (float_de_int (min n_emp 100)) (\<lambda>a.
     seguir (float_de_int (max 0 (n_emp - 100))) (\<lambda>b.
     Inr (fadd (fmul a rp1) (fmul b rp2))))"
    by (cases "float_de_int (min n_emp 100)"; cases "float_de_int (max 0 (n_emp - 100))")
      (simp_all add: calcular_custo_funcionarios_def int_vezes_float_def)
  then show ?thesis by (simp add: funcionarios_150)
qed

text \<open>
  C5 (as amended). For finite non-negative rates the employee cost, where it is computed,
  does not decrease when the employee count grows. For a count of at most 100 it is the
  float product of the count and \<open>Rp1\<close>; for a count of 100 or more it is the float sum
  of \<open>100 * Rp1\<close> and the product of the count above 100 and \<open>Rp2\<close>: the first 100 are
  charged at \<open>Rp1\<close> only, and the slopes \<open>Rp1\<close> and \<open>Rp2\<close> hold up to rounding.
\<close>

theorem calcular_custo_funcionarios_monotono:
  assumes "finito rp1" and "finito rp2" and "fle (Num 0) rp1" and "fle (Num 0) rp2"
  shows "(n1 \<le> n2 \<and> calcular_custo_funcionarios n1 rp1 rp2 = Inr c1
            \<and> calcular_custo_funcionarios n2 rp1 rp2 = Inr c2 \<longrightarrow> fle c1 c2)
    \<and> (n \<le> 100 \<longrightarrow> calcular_custo_funcionarios n rp1 rp2 = int_vezes_float n rp1)
    \<and> (100 \<le> n \<longrightarrow>
          calcular_custo_funcionarios n rp1 rp2 =
            seguir (int_vezes_float (n - 100) rp2)
              (\<lambda>b. Inr (fadd (fmul (Num 100) rp1) b)))"
proof -
  from assms(1,3) obtain r1 where r1: "rp1 = Num r1" "0 \<le> r1"
    using finito_Num by fastforce
  from assms(2,4) obtain r2 where r2: "rp2 = Num r2" "0 \<le> r2"
    using finito_Num by fastforce
  have mono: "fle c1 c2"
    if le: "n1 \<le> n2" and e1: "calcular_custo_funcionarios n1 rp1 rp2 = Inr c1"
      and e2: "calcular_custo_funcionarios n2 rp1 rp2 = Inr c2"
  proof -
    have "fle (fadd (fmul (Num (valor_arredondado (of_int (min n1 100)))) (Num r1))
                    (fmul (Num (valor_arredondado (of_int (max 0 (n1 - 100))))) (Num r2)))
              (fadd (fmul (Num (valor_arredondado (of_int (min n2 100)))) (Num r1))
                    (fmul (Num (valor_arredondado (of_int (max 0 (n2 - 100))))) (Num r2)))"
    proof (rule fadd_mono)
      show "fle (fmul (Num (valor_arredondado (of_int (min n1 100)))) (Num r1))
                (fmul (Num (valor_arredondado (of_int (min n2 100)))) (Num r1))"
        using le r1(2) by (intro fmul_mono_left valor_int_mono) simp_all
      show "fle (fmul (Num (valor_arredondado (of_int (max 0 (n1 - 100))))) (Num r2))
                (fmul (Num (valor_arredondado (of_int (max 0 (n2 - 100))))) (Num r2))"
        using le r2(2) by (intro fmul_mono_left valor_int_mono) simp_all
    qed (rule funcionarios_not_NaN [OF r1(2) r2(2)])+
    then show ?thesis
      using funcionarios_Inr [OF e1] funcionarios_Inr [OF e2] by (simp only: r1(1) r2(1))
  qed
  from mono funcionarios_ate_100 [of n rp1 r2] funcionarios_acima_100 [of n rp1 rp2]
  show ?thesis by (simp add: r2(1))
qed

theorem calcular_custo_funcionarios_monotono_witness:
  "finito (Num 25) \<and> finito (Num 30) \<and> fle (Num 0) (Num 25) \<and> fle (Num 0) (Num 30)
   \<and> (50::int) \<le> 150 \<and> (100::int) \<le> 150
   \<and> calcular_custo_funcionarios 50 (Num 25) (Num 30) = Inr (Num 1250)
   \<and> calcular_custo_funcionarios 150 (Num 25) (Num 30) = Inr (Num 4000)
   \<and> fle (Num 1250) (Num 4000)
   \<and> calcular_custo_funcionarios 50 (Num 25) (Num 30) = int_vezes_float 50 (Num 25)
   \<and> calcular_custo_funcionarios 150 (Num 25) (Num 30) =
       seguir (int_vezes_float (150 - 100) (Num 30))
         (\<lambda>b. Inr (fadd (fmul (Num 100) (Num 25)) b))"
proof -
  have f1: "finito (Num 25)" and f2: "finito (Num 30)"
    by (simp_all add: finito_def arredondar_numeral)
  have p1: "fle (Num 0) (Num 25)" and p2: "fle (Num 0) (Num 30)"
    by simp_all
  have e1: "calcular_custo_funcionarios 50 (Num 25) (Num 30) = Inr (Num 1250)"
    by (simp add: calc_defs eval_float)
  from calcular_custo_funcionarios_monotono [OF f1 f2 p1 p2, of 50 150 "Num 1250" "Num 4000" 50]
    calcular_custo_funcionarios_monotono [OF f1 f2 p1 p2, of 50 150 "Num 1250" "Num 4000" 150]
    f1 f2 e1 funcionarios_150
  show ?thesis by simp
qed

text \<open>
  C5 as stated fails twice. With the non-negative rate \<open>Rp2 = inf\<close> the cost of 50
  employees is \<open>0 * inf\<close>, a NaN, which is not below the cost of 150. With both rates
  the float 0.1, the costs of 2 and of 3 employees differ by more than the rate.
\<close>

theorem calcular_custo_funcionarios_counterexample:
  "fle (Num 0) PInf
   \<and> calcular_custo_funcionarios 50 (Num 25) PInf = Inr NaN
   \<and> calcular_custo_funcionarios 150 (Num 25) PInf = Inr PInf
   \<and> \<not> fle NaN PInf
   \<and> arredondar 0.1 = Num (3602879701896397 / 2 ^ 55)
   \<and> calcular_custo_funcionarios 2 (arredondar 0.1) (arredondar 0.1)
       = Inr (Num (3602879701896397 / 2 ^ 54))
   \<and> calcular_custo_funcionarios 3 (arredondar 0.1) (arredondar 0.1)
       = Inr (Num (5404319552844596 / 2 ^ 54))
   \<and> (5404319552844596 / 2 ^ 54 - 3602879701896397 / 2 ^ 54 :: real)
       \<noteq> 3602879701896397 / 2 ^ 55"
proof -
  have a: "calcular_custo_funcionarios 50 (Num 25) PInf = Inr NaN"
    by (simp add: calc_defs eval_float)
  have b: "calcular_custo_funcionarios 150 (Num 25) PInf = Inr PInf"
    by (simp add: calc_defs eval_float)
  have c: "(5404319552844596 / 2 ^ 54 - 3602879701896397 / 2 ^ 54 :: real)
       \<noteq> 3602879701896397 / 2 ^ 55"
    by simp
  from a b c arredondar_0_1 funcionarios_2_3 show ?thesis
    by (simp only: simp_thms fle.simps)
qed

text \<open>
  C6 (as amended). For every finite rate the extra-hearing cost is 0 whenever the total
  hearings do not exceed the included ones. Whenever they do, the cost is the product of
  the difference, converted to a float, and the rate, for every rate.
\<close>

theorem calcular_custo_audiencias_extras_casos:
  "(finito r_aud \<and> n_aud \<le> aud_incl \<longrightarrow>
      calcular_custo_audiencias_extras n_aud aud_incl r_aud = Inr (Num 0))
   \<and> (aud_incl < n_aud \<longrightarrow>
        calcular_custo_audiencias_extras n_aud aud_incl r_aud
        = int_vezes_float (n_aud - aud_incl) r_aud)"
proof (intro conjI impI)
  assume a: "finito r_aud \<and> n_aud \<le> aud_incl"
  then obtain r where r: "r_aud = Num r" using finito_Num by blast
  from a have "max 0 (n_aud - aud_incl) = 0" by simp
  then show "calcular_custo_audiencias_extras n_aud aud_incl r_aud = Inr (Num 0)"
    by (simp add: calcular_custo_audiencias_extras_def int_vezes_float_def float_de_int_zero
        r arredondar_zero)
next
  assume "aud_incl < n_aud"
  then have "max 0 (n_aud - aud_incl) = n_aud - aud_incl" by simp
  then show "calcular_custo_audiencias_extras n_aud aud_incl r_aud
        = int_vezes_float (n_aud - aud_incl) r_aud"
    by (simp add: calcular_custo_audiencias_extras_def)
qed

theorem calcular_custo_audiencias_extras_casos_witness:
  "finito (Num 150) \<and> (3::int) \<le> 8
   \<and> calcular_custo_audiencias_extras 3 8 (Num 150) = Inr (Num 0)
   \<and> (3::int) < 8
   \<and> calcular_custo_audiencias_extras 8 3 (Num 150) = int_vezes_float (8 - 3) (Num 150)
   \<and> calcular_custo_audiencias_extras 8 3 (Num 150) = Inr (Num 750)"
proof -
  have f: "finito (Num 150)"
    by (simp add: finito_def arredondar_numeral)
  have a: "(3::int) \<le> 8" and b: "(3::int) < 8"
    by simp_all
  have e: "int_vezes_float (8 - 3) (Num 150) = Inr (Num 750)"
    by (simp add: eval_float)
  from calcular_custo_audiencias_extras_casos [of "Num 150" 3 8]
    calcular_custo_audiencias_extras_casos [of "Num 150" 8 3] f a b e
  show ?thesis by simp
qed

text \<open>
  C6 as stated fails: with no extra hearing and the rate \<open>inf\<close>, the cost is
  \<open>0 * inf\<close>, a NaN and not 0. The validator accepts this rate, and the NaN reaches the
  rendered result.
\<close>

theorem calcular_custo_audiencias_extras_counterexample:
  "(3::int) \<le> 8
   \<and> calcular_custo_audiencias_extras 3 8 PInf = Inr NaN
   \<and> calcular_custo_audiencias_extras 3 8 PInf \<noteq> Inr (Num 0)
   \<and> validar_dados_entrada dec_float dec_int form_audiencia_infinita = (True, [])
   \<and> index dec_float dec_int POST form_audiencia_infinita =
       \<lparr>flashes = [(msg_sucesso, ''success'')],
        resultado = Some \<lparr>C_emp = Num 1250, C_loc = Num 1000, C_aud = NaN,
                          Custo_bruto = NaN, Preco = NaN\<rparr>\<rparr>"
proof -
  have a: "calcular_custo_audiencias_extras 3 8 PInf = Inr NaN"
    by (simp add: calc_defs eval_float)
  then have b: "calcular_custo_audiencias_extras 3 8 PInf \<noteq> Inr (Num 0)"
    by simp
  from a b validar_audiencia_infinita index_audiencia_infinita show ?thesis
    by simp
qed

text \<open>
  C9. On the worked example (base fee 1000, 50 employees at 25 and 30, 5 locations at
  200, 3 included and 8 total hearings at 150, margin the float 0.20) the calculator
  returns employee cost 1250, location cost 1000, extra-hearing cost 750, gross cost 4000
  and final price 4800.
\<close>

theorem calcular_precificacao_exemplo:
  "calcular_precificacao
     \<lparr>F_base = Num 1000, N_emp = 50, Rp1 = Num 25, Rp2 = Num 30, N_loc = 5, R_loc = Num 200,
      Aud_incl = 3, N_aud = 8, R_aud = Num 150, m = arredondar 0.20\<rparr>
   = Inr \<lparr>C_emp = Num 1250, C_loc = Num 1000, C_aud = Num 750, Custo_bruto = Num 4000,
          Preco = Num 4800.00\<rparr>"
  using calcular_exemplo by (simp add: dados_exemplo_def)

text \<open>
  C10 (as amended). For every input record whose ten fields are non-negative and whose
  float fields are finite (the margin unbounded), every field of the calculator's
  result is non-negative, and the final price is at least the gross cost.
\<close>

theorem calcular_precificacao_nao_negativo:
  assumes "nao_negativos d" and "campos_finitos d" and "calcular_precificacao d = Inr r"
  shows "fle (Num 0) (C_emp r) \<and> fle (Num 0) (C_loc r) \<and> fle (Num 0) (C_aud r)
    \<and> fle (Num 0) (Custo_bruto r) \<and> fle (Num 0) (Preco r)
    \<and> fle (Custo_bruto r) (Preco r)"
proof -
  from assms(3) obtain ce cl ca u where ce: "calcular_custo_funcionarios (N_emp d) (Rp1 d) (Rp2 d) = Inr ce"
    and cl: "calcular_custo_postos (N_loc d) (R_loc d) = Inr cl"
    and ca: "calcular_custo_audiencias_extras (N_aud d) (Aud_incl d) (R_aud d) = Inr ca"
    and u: "int_mais_float 1 (m d) = Inr u"
    and r: "r = \<lparr>C_emp = ce, C_loc = cl, C_aud = ca,
                 Custo_bruto = fadd (fadd (fadd (F_base d) ce) cl) ca,
                 Preco = fmul (fadd (fadd (fadd (F_base d) ce) cl) ca) u\<rparr>"
    by (cases "calcular_custo_funcionarios (N_emp d) (Rp1 d) (Rp2 d)";
        cases "calcular_custo_postos (N_loc d) (R_loc d)";
        cases "calcular_custo_audiencias_extras (N_aud d) (Aud_incl d) (R_aud d)";
        cases "int_mais_float 1 (m d)")
      (auto simp add: calcular_precificacao_def Let_def)
  from assms(1) have nn: "fle (Num 0) (F_base d)" "0 \<le> N_emp d" "fle (Num 0) (Rp1 d)"
    "fle (Num 0) (Rp2 d)" "0 \<le> N_loc d" "fle (Num 0) (R_loc d)" "fle (Num 0) (R_aud d)"
    "fle (Num 0) (m d)"
    by (simp_all add: nao_negativos_def)
  from assms(2) have fin: "finito (Rp1 d)" "finito (Rp2 d)" "finito (R_loc d)"
    "finito (R_aud d)" "finito (m d)"
    by (simp_all add: campos_finitos_def)
  have e: "fle (Num 0) ce"
    using funcionarios_nonneg [OF nn(2) nn(3) fin(1) nn(4) fin(2) ce] .
  have l: "fle (Num 0) cl"
    using int_vezes_float_nonneg [OF nn(5) nn(6) fin(3)] cl
    by (simp add: calcular_custo_postos_def)
  have a: "fle (Num 0) ca"
    using int_vezes_float_nonneg [OF _ nn(7) fin(4), of "max 0 (N_aud d - Aud_incl d)"] ca
    by (simp add: calcular_custo_audiencias_extras_def)
  have g: "fle (Num 0) (fadd (fadd (fadd (F_base d) ce) cl) ca)"
    using nn(1) e l a by (intro fadd_nonneg)
  from um_mais_finito [OF fin(5) nn(8)] obtain t where t: "fadd (Num 1) (m d) = Num t" "1 \<le> t"
    by blast
  from u have ut: "u = Num t" by (simp add: int_mais_float_def float_de_int_one t(1))
  from preco_ge_custo [OF g refl t(2)] e l a g show ?thesis
    by (simp add: r ut del: fadd.simps fmul.simps)
qed

theorem calcular_precificacao_nao_negativo_witness:
  "nao_negativos dados_exemplo \<and> campos_finitos dados_exemplo
   \<and> calcular_precificacao dados_exemplo =
       Inr \<lparr>C_emp = Num 1250, C_loc = Num 1000, C_aud = Num 750, Custo_bruto = Num 4000,
            Preco = Num 4800\<rparr>
   \<and> fle (Num 0) (Num 1250) \<and> fle (Num 0) (Num 1000) \<and> fle (Num 0) (Num 750)
   \<and> fle (Num 0) (Num 4000) \<and> fle (Num 0) (Num 4800) \<and> fle (Num 4000) (Num 4800)"
proof -
  from calcular_precificacao_nao_negativo
         [OF nao_negativos_exemplo campos_finitos_exemplo calcular_exemplo]
    nao_negativos_exemplo campos_finitos_exemplo calcular_exemplo
  show ?thesis by simp
qed

text \<open>
  C10 as stated fails: the example with the rate above 100 employees \<open>inf\<close> has all its
  fields non-negative, the validator accepts it, and the employee cost \<open>0 * inf\<close>, the
  gross cost and the final price are NaN, which is not non-negative.
\<close>

theorem calcular_precificacao_nao_negativo_counterexample:
  "nao_negativos dados_tarifa_infinita
   \<and> calcular_precificacao dados_tarifa_infinita =
       Inr \<lparr>C_emp = NaN, C_loc = Num 1000, C_aud = Num 750, Custo_bruto = NaN, Preco = NaN\<rparr>
   \<and> \<not> fle (Num 0) NaN
   \<and> ler_campos dec_float dec_int form_tarifa_infinita = Some dados_tarifa_infinita
   \<and> validar_dados_entrada dec_float dec_int form_tarifa_infinita = (True, [])"
proof -
  have "nao_negativos dados_tarifa_infinita"
    by (simp add: nao_negativos_def dados_tarifa_infinita_def arredondar_um_quinto)
  with calcular_tarifa_infinita ler_campos_tarifa_infinita validar_tarifa_infinita
  show ?thesis by simp
qed

subsection \<open>The Input Validator and the request pipeline\<close>




text \<open>
  C4 (as amended). For every raw form, a POST yields exactly one of two outcomes: one
  error message and no result, or a fully constructed input record whose result, returned
  by the calculator, is rendered under the success message. Whenever validation accepts
  and all ten fields are present in the form, the record is produced, it holds the values
  the validator read, and it is passed to the calculator: the result is rendered when the
  calculator returns one, and one error message with no result is left when it raises.
  The calculator returns exactly when its four integer counts convert to floats.
\<close>

theorem validar_processar_pipeline:
  "(((\<exists>msg. index pfloat pint POST form_data =
              \<lparr>flashes = [(msg, ''error'')], resultado = None\<rparr>)
     \<or> (\<exists>dados r. processar_dados_formulario pfloat pint form_data = Some dados
           \<and> calcular_precificacao dados = Inr r
           \<and> index pfloat pint POST form_data =
               \<lparr>flashes = [(msg_sucesso, ''success'')], resultado = Some r\<rparr>))
    \<and> \<not> ((\<exists>msg. index pfloat pint POST form_data =
                 \<lparr>flashes = [(msg, ''error'')], resultado = None\<rparr>)
          \<and> (\<exists>dados r. processar_dados_formulario pfloat pint form_data = Some dados
                \<and> calcular_precificacao dados = Inr r
                \<and> index pfloat pint POST form_data =
                    \<lparr>flashes = [(msg_sucesso, ''success'')], resultado = Some r\<rparr>)))
   \<and> (fst (validar_dados_entrada pfloat pint form_data) \<and> set campos \<subseteq> dom form_data
        \<longrightarrow> (\<exists>dados. processar_dados_formulario pfloat pint form_data = Some dados
               \<and> ler_campos pfloat pint form_data = Some dados
               \<and> index pfloat pint POST form_data =
                   (case calcular_precificacao dados of
                      Inr r \<Rightarrow> \<lparr>flashes = [(msg_sucesso, ''success'')], resultado = Some r\<rparr>
                    | Inl e \<Rightarrow>
                        \<lparr>flashes = [(msg_erro_inesperado e, ''error'')], resultado = None\<rparr>)
               \<and> ((\<exists>r. calcular_precificacao dados = Inr r) \<longleftrightarrow>
                    convertivel (min (N_emp dados) 100)
                    \<and> convertivel (max 0 (N_emp dados - 100))
                    \<and> convertivel (N_loc dados)
                    \<and> convertivel (max 0 (N_aud dados - Aud_incl dados)))))"
proof (intro conjI impI)
  show "(\<exists>msg. index pfloat pint POST form_data =
              \<lparr>flashes = [(msg, ''error'')], resultado = None\<rparr>)
     \<or> (\<exists>dados r. processar_dados_formulario pfloat pint form_data = Some dados
           \<and> calcular_precificacao dados = Inr r
           \<and> index pfloat pint POST form_data =
               \<lparr>flashes = [(msg_sucesso, ''success'')], resultado = Some r\<rparr>)"
  proof (cases "fst (validar_dados_entrada pfloat pint form_data)")
    case False
    then show ?thesis by (simp add: index_rejeitado)
  next
    case True
    show ?thesis
    proof (cases "processar_dados_formulario pfloat pint form_data")
      case None
      with True show ?thesis by (simp add: index_aceito)
    next
      case (Some dados)
      with True show ?thesis
        by (cases "calcular_precificacao dados") (simp_all add: index_aceito)
    qed
  qed
next
  show "\<not> ((\<exists>msg. index pfloat pint POST form_data =
                 \<lparr>flashes = [(msg, ''error'')], resultado = None\<rparr>)
          \<and> (\<exists>dados r. processar_dados_formulario pfloat pint form_data = Some dados
                \<and> calcular_precificacao dados = Inr r
                \<and> index pfloat pint POST form_data =
                    \<lparr>flashes = [(msg_sucesso, ''success'')], resultado = Some r\<rparr>))"
    by auto
next
  assume h: "fst (validar_dados_entrada pfloat pint form_data) \<and> set campos \<subseteq> dom form_data"
  then obtain d where d: "ler_campos pfloat pint form_data = Some d"
    using validar_aceita_ler by blast
  with h have p: "processar_dados_formulario pfloat pint form_data = Some d"
    by (simp add: processar_presentes)
  from h p have i: "index pfloat pint POST form_data =
      (case calcular_precificacao d of
         Inr r \<Rightarrow> \<lparr>flashes = [(msg_sucesso, ''success'')], resultado = Some r\<rparr>
       | Inl e \<Rightarrow> \<lparr>flashes = [(msg_erro_inesperado e, ''error'')], resultado = None\<rparr>)"
    by (simp add: index_aceito)
  from p d i calcular_retorna [of d]
  show "\<exists>dados. processar_dados_formulario pfloat pint form_data = Some dados
               \<and> ler_campos pfloat pint form_data = Some dados
               \<and> index pfloat pint POST form_data =
                   (case calcular_precificacao dados of
                      Inr r \<Rightarrow> \<lparr>flashes = [(msg_sucesso, ''success'')], resultado = Some r\<rparr>
                    | Inl e \<Rightarrow>
                        \<lparr>flashes = [(msg_erro_inesperado e, ''error'')], resultado = None\<rparr>)
               \<and> ((\<exists>r. calcular_precificacao dados = Inr r) \<longleftrightarrow>
                    convertivel (min (N_emp dados) 100)
                    \<and> convertivel (max 0 (N_emp dados - 100))
                    \<and> convertivel (N_loc dados)
                    \<and> convertivel (max 0 (N_aud dados - Aud_incl dados)))"
    by blast
qed

theorem validar_processar_pipeline_witness:
  "fst (validar_dados_entrada dec_float dec_int form_exemplo)
   \<and> set campos \<subseteq> dom form_exemplo
   \<and> index dec_float dec_int POST form_exemplo =
       \<lparr>flashes = [(msg_sucesso, ''success'')],
        resultado = Some \<lparr>C_emp = Num 1250, C_loc = Num 1000, C_aud = Num 750,
                          Custo_bruto = Num 4000, Preco = Num 4800\<rparr>\<rparr>"
proof -
  have h: "fst (validar_dados_entrada dec_float dec_int form_exemplo)
           \<and> set campos \<subseteq> dom form_exemplo"
    using campos_exemplo by (simp add: validar_exemplo)
  from validar_processar_pipeline [of dec_float dec_int form_exemplo] h
  obtain dados where "ler_campos dec_float dec_int form_exemplo = Some dados"
    and "index dec_float dec_int POST form_exemplo =
           (case calcular_precificacao dados of
              Inr r \<Rightarrow> \<lparr>flashes = [(msg_sucesso, ''success'')], resultado = Some r\<rparr>
            | Inl e \<Rightarrow> \<lparr>flashes = [(msg_erro_inesperado e, ''error'')], resultado = None\<rparr>)"
    by blast
  then show ?thesis
    using h by (simp add: ler_campos_exemplo calcular_exemplo)
qed

text \<open>
  C4 as stated fails twice. On the example form without the field \<^verbatim>\<open>m\<close> the validator
  accepts (it reads the missing margin as 0), no record is produced and no result is
  rendered. On the example form with \<open>10 ^ 309\<close> employees the validator accepts, the
  record is produced, the calculator raises on converting the count to a float, and no
  result is rendered.
\<close>

theorem validar_aceita_sem_registro_counterexample:
  "validar_dados_entrada dec_float dec_int form_sem_margem = (True, [])
   \<and> processar_dados_formulario dec_float dec_int form_sem_margem = None
   \<and> index dec_float dec_int POST form_sem_margem =
       \<lparr>flashes = [(msg_erro_processar, ''error'')], resultado = None\<rparr>
   \<and> validar_dados_entrada dec_float dec_int form_muitos_funcionarios = (True, [])
   \<and> processar_dados_formulario dec_float dec_int form_muitos_funcionarios
       = Some dados_muitos_funcionarios
   \<and> calcular_precificacao dados_muitos_funcionarios = Inl OverflowError
   \<and> index dec_float dec_int POST form_muitos_funcionarios =
       \<lparr>flashes = [(msg_erro_inesperado OverflowError, ''error'')], resultado = None\<rparr>"
proof -
  have b: "processar_dados_formulario dec_float dec_int form_sem_margem = None"
    by (simp add: processar_dados_formulario_def construir_dados_def float_item_def
        int_item_def form_sem_margem_def eval_dec)
  then have c: "index dec_float dec_int POST form_sem_margem =
       \<lparr>flashes = [(msg_erro_processar, ''error'')], resultado = None\<rparr>"
    by (simp add: index_aceito validar_sem_margem)
  from b c validar_sem_margem validar_muitos_funcionarios calcular_muitos_funcionarios
    index_muitos_funcionarios
    processar_presentes [OF campos_muitos_funcionarios ler_campos_muitos_funcionarios]
  show ?thesis by simp
qed

text \<open>
  C7 (as amended). For every form in which some field parses to a negative value, the
  validator rejects, the request leaves the validator's message as its one error and no
  result, and the calculator's result is never produced, whatever the method. When all
  ten fields parse, the message is that of a business rule.
\<close>

theorem validar_rejeita_negativo:
  assumes "campo_negativo pfloat pint form_data"
  shows "\<not> fst (validar_dados_entrada pfloat pint form_data)
    \<and> index pfloat pint POST form_data =
        \<lparr>flashes = [(snd (validar_dados_entrada pfloat pint form_data), ''error'')],
         resultado = None\<rparr>
    \<and> resultado (index pfloat pint met form_data) = None
    \<and> (ler_campos pfloat pint form_data \<noteq> None \<longrightarrow>
         snd (validar_dados_entrada pfloat pint form_data) \<in> set mensagens_regra)"
proof -
  have r: "\<not> fst (validar_dados_entrada pfloat pint form_data)"
    using assms by (rule rejeita_negativo)
  have i: "index pfloat pint POST form_data =
        \<lparr>flashes = [(snd (validar_dados_entrada pfloat pint form_data), ''error'')],
         resultado = None\<rparr>"
    using r by (rule index_rejeitado)
  have n: "resultado (index pfloat pint met form_data) = None"
    using i by (cases met) (simp_all add: index_GET)
  have k: "snd (validar_dados_entrada pfloat pint form_data) \<in> set mensagens_regra"
    if "ler_campos pfloat pint form_data \<noteq> None"
  proof -
    from that obtain d where d: "ler_campos pfloat pint form_data = Some d"
      by blast
    with r show ?thesis
      by (simp add: validar_lido regras_negocio_mensagem)
  qed
  from r i n k show ?thesis by blast
qed

theorem validar_rejeita_negativo_witness:
  "campo_negativo dec_float dec_int form_negativo
   \<and> ler_campos dec_float dec_int form_negativo \<noteq> None
   \<and> validar_dados_entrada dec_float dec_int form_negativo = (False, msg_N_emp)
   \<and> msg_N_emp \<in> set mensagens_regra
   \<and> index dec_float dec_int POST form_negativo =
       \<lparr>flashes = [(msg_N_emp, ''error'')], resultado = None\<rparr>"
proof -
  have h: "campo_negativo dec_float dec_int form_negativo"
    by (simp add: ler_negativo [OF ler_campos_negativo] algum_negativo_def dados_negativo_def)
  have l: "ler_campos dec_float dec_int form_negativo \<noteq> None"
    by (simp add: ler_campos_negativo)
  have v: "validar_dados_entrada dec_float dec_int form_negativo = (False, msg_N_emp)"
    by (simp add: validar_lido [OF ler_campos_negativo] regras_negocio_def dados_negativo_def)
  from validar_rejeita_negativo [OF h, of POST] h l v show ?thesis by simp
qed

text \<open>
  C7 as stated fails: where the employee count parses to \<open>-5\<close> and the base fee is not
  a number, the rejection carries the malformed-input message, which is not the message
  of any business rule.
\<close>

theorem validar_negativo_malformado_counterexample:
  "int_get dec_int form_malformado ''N_emp'' = Some (- 5)
   \<and> campo_negativo dec_float dec_int form_malformado
   \<and> validar_dados_entrada dec_float dec_int form_malformado = (False, msg_erro_dados)
   \<and> msg_erro_dados \<notin> set mensagens_regra"
proof -
  have a: "int_get dec_int form_malformado ''N_emp'' = Some (- 5)"
    by (simp add: int_get_def form_malformado_def dec_defs)
  then have b: "campo_negativo dec_float dec_int form_malformado"
    by (simp add: campo_negativo_def)
  have "float_get dec_float form_malformado ''F_base'' = None"
    by (simp add: float_get_def form_malformado_def dec_defs)
  then have "ler_campos dec_float dec_int form_malformado = None"
    by (simp add: ler_campos_def)
  then have c: "validar_dados_entrada dec_float dec_int form_malformado = (False, msg_erro_dados)"
    by (rule validar_nao_lido)
  have d: "msg_erro_dados \<notin> set mensagens_regra"
    by (simp add: mensagens_regra_def msg_defs)
  from a b c d show ?thesis by simp
qed

text \<open>
  C8. For every form whose fields parse, if the parsed total-hearing count is strictly
  below the parsed included-hearing count, the validator rejects the form with the
  message of a business rule.
\<close>

theorem validar_rejeita_menos_audiencias:
  assumes "ler_campos pfloat pint form_data = Some d" and "N_aud d < Aud_incl d"
  shows "\<not> fst (validar_dados_entrada pfloat pint form_data)
    \<and> snd (validar_dados_entrada pfloat pint form_data) \<in> set mensagens_regra"
proof -
  from assms(2) have "\<not> fst (regras_negocio d)"
    by (rule regras_negocio_audiencias)
  then show ?thesis
    using assms(1) by (simp add: validar_lido regras_negocio_mensagem)
qed

theorem validar_rejeita_menos_audiencias_witness:
  "ler_campos dec_float dec_int form_menos_audiencias =
     Some \<lparr>F_base = Num 1000, N_emp = 50, Rp1 = Num 25, Rp2 = Num 30, N_loc = 5,
           R_loc = Num 200, Aud_incl = 3, N_aud = 2, R_aud = Num 150, m = arredondar 0.20\<rparr>
   \<and> (2::int) < 3
   \<and> \<not> fst (validar_dados_entrada dec_float dec_int form_menos_audiencias)
   \<and> snd (validar_dados_entrada dec_float dec_int form_menos_audiencias) \<in> set mensagens_regra
   \<and> validar_dados_entrada dec_float dec_int form_menos_audiencias
       = (False, msg_total_incluidas)"
proof -
  have h: "N_aud dados_menos_audiencias < Aud_incl dados_menos_audiencias"
    by (simp add: dados_menos_audiencias_def)
  have v: "validar_dados_entrada dec_float dec_int form_menos_audiencias
             = (False, msg_total_incluidas)"
    by (simp add: validar_lido [OF ler_campos_menos_audiencias] regras_negocio_def
        dados_menos_audiencias_def)
  from validar_rejeita_menos_audiencias [OF ler_campos_menos_audiencias h]
    ler_campos_menos_audiencias v
  show ?thesis by (simp add: dados_menos_audiencias_def)
qed

end
